theory Spec2Isabelle
  imports Complex_Main
begin

unbundle bit_operations_syntax

section \<open>Python values used by \<open>humanneuroredcap.py\<close>\<close>

text \<open>
  A Python \<open>str\<close> is modelled as the list of its code points, restricted to the code
  points below 256 (one \<open>char\<close> each). The exceptions that \<open>add_patient\<close> can meet are
  values of \<open>exn\<close>: the two the source raises itself carry their message, the ones the
  interpreter raises (\<open>int()\<close> on a bad literal or an infinity, \<open>math.isnan\<close> on a
  string or on an integer too large for a float, \<open>.lower()\<close> on a number) carry none,
  and \<open>ServiceError\<close> is any exception raised inside the REDCap client, with the text
  \<open>str(e)\<close> gives for it.
\<close>

datatype exn =
    RuntimeError string
  | ValueError string
  | InvalidLiteral
  | OverflowError
  | TypeError
  | AttributeError
  | ServiceError string

text \<open>
  A cell of the exported data frame: a string, an integer (of any size, as a Python
  \<open>int\<close> is), a finite float (held as the rational number it denotes), an infinity, or NaN
  (the marker of a missing value). No arithmetic is done on a float: the source only asks
  whether it is NaN and truncates it with \<open>int\<close>.
\<close>

datatype cell = CStr string | CInt int | CFloat rat | CInf | CNaN

definition is_str :: "cell \<Rightarrow> bool" where
  "is_str c = (case c of CStr _ \<Rightarrow> True | _ \<Rightarrow> False)"

text \<open>
  \<open>math.isnan\<close> converts its argument to a float first. An integer converts, rounding to
  the nearest float, when that float is finite: when its magnitude is below
  \<open>2 ^ 1024 - 2 ^ 970\<close>, half way between the largest float and \<open>2 ^ 1024\<close>.
\<close>

definition fits_float :: "int \<Rightarrow> bool" where
  "fits_float n = (\<bar>n\<bar> < 2 ^ 1024 - 2 ^ 970)"

text \<open>
  \<open>math.isnan\<close>: a \<open>TypeError\<close> on a string, an \<open>OverflowError\<close> on an integer that
  does not convert to a float, otherwise whether the number is NaN.
\<close>

definition isnan :: "cell \<Rightarrow> exn + bool" where
  "isnan c = (case c of
       CStr _ \<Rightarrow> Inl TypeError
     | CInt n \<Rightarrow> if fits_float n then Inr False else Inl OverflowError
     | CFloat _ \<Rightarrow> Inr False
     | CInf \<Rightarrow> Inr False
     | CNaN \<Rightarrow> Inr True)"

subsection \<open>\<open>int(x)\<close>\<close>

text \<open>
  The characters \<open>int()\<close> skips around a literal: tab, line feed, vertical tab, form
  feed, carriage return, space, and (above ASCII) NEL and the no-break space.
\<close>

definition is_space :: "char \<Rightarrow> bool" where
  "is_space c = ((of_char c :: nat) \<in> {9, 10, 11, 12, 13, 32, 133, 160})"

definition is_digit :: "char \<Rightarrow> bool" where
  "is_digit c = (48 \<le> (of_char c :: nat) \<and> (of_char c :: nat) \<le> 57)"

definition digit_val :: "char \<Rightarrow> nat" where
  "digit_val c = of_char c - 48"

text \<open>The value of a string of decimal digits, most significant first.\<close>

definition digits_val :: "string \<Rightarrow> nat" where
  "digits_val ds = foldl (\<lambda>acc c. 10 * acc + digit_val c) 0 ds"

fun double_underscore :: "string \<Rightarrow> bool" where
  "double_underscore (a # b # cs) =
     ((a = CHR ''_'' \<and> b = CHR ''_'') \<or> double_underscore (b # cs))"
| "double_underscore _ = False"

text \<open>\<open>sys.int_info.default_max_str_digits\<close>: longer literals are refused.\<close>

definition int_max_str_digits :: nat where
  "int_max_str_digits = 4300"

text \<open>
  \<open>int(s)\<close> for a string, base 10: optional surrounding whitespace, one optional sign,
  then decimal digits with single underscores between digits; anything else is a
  \<open>ValueError\<close> (here \<open>InvalidLiteral\<close>).
\<close>

definition str_to_int :: "string \<Rightarrow> exn + int" where
  "str_to_int s =
     (let t = dropWhile is_space s;
          neg = (t \<noteq> [] \<and> hd t = CHR ''-'');
          u = (if t \<noteq> [] \<and> (hd t = CHR ''+'' \<or> hd t = CHR ''-'') then tl t else t);
          body = takeWhile (\<lambda>c. is_digit c \<or> c = CHR ''_'') u;
          rest = dropWhile (\<lambda>c. is_digit c \<or> c = CHR ''_'') u;
          ds = filter is_digit body
      in if body = [] \<or> hd body = CHR ''_'' \<or> last body = CHR ''_'' \<or> double_underscore body
            \<or> dropWhile is_space rest \<noteq> [] \<or> int_max_str_digits < length ds
         then Inl InvalidLiteral
         else Inr (if neg then - int (digits_val ds) else int (digits_val ds)))"

text \<open>\<open>int(x)\<close> for a float truncates towards zero.\<close>

definition trunc :: "rat \<Rightarrow> int" where
  "trunc q = (if q < 0 then - \<lfloor>- q\<rfloor> else \<lfloor>q\<rfloor>)"

definition py_int :: "cell \<Rightarrow> exn + int" where
  "py_int c = (case c of
       CStr s \<Rightarrow> str_to_int s
     | CInt i \<Rightarrow> Inr i
     | CFloat q \<Rightarrow> Inr (trunc q)
     | CInf \<Rightarrow> Inl OverflowError
     | CNaN \<Rightarrow> Inl (ValueError ''cannot convert float NaN to integer''))"

subsection \<open>The format \<open>f"{i:0{w}d}"\<close>\<close>

definition digit_char :: "nat \<Rightarrow> char" where
  "digit_char d = ''0123456789'' ! d"

fun dec_digits :: "nat \<Rightarrow> string" where
  "dec_digits n = (if n < 10 then [digit_char n] else dec_digits (n div 10) @ [digit_char (n mod 10)])"

declare dec_digits.simps [simp del]

definition zfill :: "nat \<Rightarrow> string \<Rightarrow> string" where
  "zfill w s = replicate (w - length s) CHR ''0'' @ s"

text \<open>Zero padding is sign aware: the sign comes first and counts in the width.\<close>

definition fmt_d :: "nat \<Rightarrow> int \<Rightarrow> string" where
  "fmt_d w i = (if i < 0 then CHR ''-'' # zfill (w - 1) (dec_digits (nat (- i)))
                else zfill w (dec_digits (nat i)))"

subsection \<open>\<open>str.lower()\<close>\<close>

definition lower_char :: "char \<Rightarrow> char" where
  "lower_char c =
     (let n = (of_char c :: nat)
      in if (65 \<le> n \<and> n \<le> 90) \<or> (192 \<le> n \<and> n \<le> 222 \<and> n \<noteq> 215) then char_of (n + 32) else c)"

definition lower :: "string \<Rightarrow> string" where
  "lower s = map lower_char s"

text \<open>\<open>x.lower()\<close> on a cell: only a string has the method.\<close>

definition cell_lower :: "cell \<Rightarrow> exn + string" where
  "cell_lower c = (case c of CStr s \<Rightarrow> Inr (lower s) | _ \<Rightarrow> Inl AttributeError)"

section \<open>The random sources\<close>

text \<open>
  \<open>secrets.choice\<close> and \<open>uuid.uuid4\<close> read the operating system's random source. The
  model reads it as a sequence of numbers (\<open>src\<close>) with a cursor (\<open>pos\<close>): every call
  takes the next number. \<open>secrets.choice(seq)\<close> is \<open>seq[randbelow(len(seq))]\<close>, the number
  brought below the length; \<open>uuid4\<close> takes 128 bits (as a Python integer), sets the variant and version bits as
  \<open>UUID(bytes=..., version=4)\<close> does, and \<open>.hex\<close> is \<open>'%032x' % int\<close>.
\<close>

record rng =
  src :: "nat \<Rightarrow> nat"
  pos :: nat

definition valid_id_chars :: string where
  "valid_id_chars = ''ABCDEFGHIJKLMNOPQRSTUVWXYZ'' @ ''0123456789''"

definition choice :: "string \<Rightarrow> nat \<Rightarrow> char" where
  "choice seq r = seq ! (r mod length seq)"

text \<open>\<open>"".join(secrets.choice(self.valid_id_chars) for _ in range(4))\<close>\<close>

definition draw_id :: "rng \<Rightarrow> string \<times> rng" where
  "draw_id g = (map (\<lambda>k. choice valid_id_chars (src g (pos g + k))) [0..<4], g\<lparr>pos := pos g + 4\<rparr>)"

definition uuid4_int :: "nat \<Rightarrow> int" where
  "uuid4_int r =
     ((((int (r mod 2 ^ 128) AND NOT (push_bit 48 0xc000)) OR push_bit 48 0x8000)
         AND NOT (push_bit 64 0xf000)) OR push_bit 76 4)"

definition hex_char :: "nat \<Rightarrow> char" where
  "hex_char d = ''0123456789abcdef'' ! d"

fun hex_digits :: "nat \<Rightarrow> string" where
  "hex_digits n = (if n < 16 then [hex_char n] else hex_digits (n div 16) @ [hex_char (n mod 16)])"

declare hex_digits.simps [simp del]

definition uuid_hex :: "int \<Rightarrow> string" where
  "uuid_hex i = zfill 32 (hex_digits (nat i))"

text \<open>\<open>str(uuid.uuid4().hex)\<close>\<close>

definition draw_guid :: "rng \<Rightarrow> string \<times> rng" where
  "draw_guid g = (uuid_hex (uuid4_int (src g (pos g))), g\<lparr>pos := pos g + 1\<rparr>)"

text \<open>\<open>create_ucsf_id\<close>: the short ID is drawn first, then the GUID; nothing is checked.\<close>

definition create_ucsf_id :: "rng \<Rightarrow> (string \<times> string) \<times> rng" where
  "create_ucsf_id g =
     (case draw_id g of (sid, g1) \<Rightarrow> (case draw_guid g1 of (guid, g2) \<Rightarrow> ((sid, guid), g2)))"

text \<open>
  The two rejection loops of \<open>add_patient\<close>. Each may run for ever, so each returns an
  option: \<open>None\<close> is a loop that never ends.
\<close>

partial_function (option) retry_id :: "string set \<Rightarrow> string \<Rightarrow> rng \<Rightarrow> (string \<times> rng) option" where
  "retry_id ids cur g =
     (if cur \<in> ids then retry_id ids (fst (draw_id g)) (snd (draw_id g)) else Some (cur, g))"

declare retry_id.simps [code]

partial_function (option) retry_guid :: "string set \<Rightarrow> string \<Rightarrow> rng \<Rightarrow> (string \<times> rng) option" where
  "retry_guid ids cur g =
     (if cur \<in> ids then retry_guid ids (fst (draw_guid g)) (snd (draw_guid g)) else Some (cur, g))"

declare retry_guid.simps [code]

text \<open>Lines 133 to 136 and 138 to 141: a supplied identifier is taken as it is.\<close>

definition alloc_ucsf_id :: "string option \<Rightarrow> string set \<Rightarrow> rng \<Rightarrow> (string \<times> rng) option" where
  "alloc_ucsf_id supplied ids g =
     (case supplied of
        Some u \<Rightarrow> Some (u, g)
      | None \<Rightarrow> retry_id ids (fst (draw_id g)) (snd (draw_id g)))"

definition alloc_ucsf_guid :: "string option \<Rightarrow> string set \<Rightarrow> rng \<Rightarrow> (string \<times> rng) option" where
  "alloc_ucsf_guid supplied ids g =
     (case supplied of
        Some u \<Rightarrow> Some (u, g)
      | None \<Rightarrow> retry_guid ids (fst (draw_guid g)) (snd (draw_guid g)))"

section \<open>The records service\<close>

text \<open>
  One row of the frame that \<open>export_records("df", fields=..., events=...)\<close> returns,
  with the seven requested columns.
\<close>

record row =
  col_record_id :: cell
  col_ucsf_id :: cell
  col_ucsf_guid :: cell
  col_nda_guid :: cell
  col_mrn :: cell
  col_first_name :: cell
  col_last_name :: cell

text \<open>
  A record dictionary handed to \<open>import_records\<close>: its keys in insertion order, a value
  being a string or \<open>None\<close>.
\<close>

type_synonym pyrecord = "(string \<times> string option) list"

text \<open>
  The \<open>Project\<close> object is outside the repository; its answers are parameters. The
  full export returns a frame or raises; \<open>import_records\<close> and the export of one record
  return (\<open>None\<close>) or raise (\<open>Some msg\<close>, \<open>msg\<close> being \<open>str(e)\<close> of the exception).
  What the client raises is an instance of \<open>Exception\<close>, the class that line 149
  catches; \<open>KeyboardInterrupt\<close> and \<open>SystemExit\<close> are not modelled.
\<close>

record project =
  export_df :: "string + row list"
  import_records :: "pyrecord list \<Rightarrow> string option"
  export_by_id :: "string list \<Rightarrow> string option"

text \<open>
  What a call can change: the random source, the warnings emitted by \<open>warn\<close>, and the
  batches submitted to \<open>import_records\<close>, each in order. A batch is logged when it is
  submitted, whether the client then returns or raises. \<open>warn\<close> only records its
  message (the default filter; one that turns warnings into errors is not modelled).
\<close>

record world =
  random :: rng
  warnings :: "string list"
  imported :: "pyrecord list list"

datatype outcome = Returned "(string \<times> string) option" | Raised exn

section \<open>\<open>add_patient\<close>\<close>

subsection \<open>Indexing the export (lines 94 to 124)\<close>

record index =
  patient_info :: "string \<rightharpoonup> cell \<times> cell"
  ucsf_ids :: "string set"
  ucsf_guids :: "string set"
  nda_guids :: "string set"

definition empty_index :: index where
  "empty_index = \<lparr>patient_info = Map.empty, ucsf_ids = {}, ucsf_guids = {}, nda_guids = {}\<rparr>"

text \<open>
  Lines 105 and 106: \<open>isinstance(m, str) or not isnan(m)\<close> guards one store, whose key
  is \<open>f"{int(m):0{8}d}"\<close> for a string as for a number.
\<close>

definition index_mrn :: "row \<Rightarrow> (string \<rightharpoonup> cell \<times> cell) \<Rightarrow> exn + (string \<rightharpoonup> cell \<times> cell)" where
  "index_mrn r pinfo =
     (let m = col_mrn r;
          store = (case py_int m of
                     Inl e \<Rightarrow> Inl e
                   | Inr i \<Rightarrow> Inr (pinfo(fmt_d 8 i \<mapsto> (col_first_name r, col_last_name r))))
      in if is_str m then store
         else (case isnan m of
                 Inl e \<Rightarrow> Inl e
               | Inr b \<Rightarrow> if \<not> b then store else Inr pinfo))"

text \<open>
  Lines 108 to 124, the same four lines three times: a string is added as it is, a
  number that is not NaN is added as \<open>f"{int(u):0{w}d}"\<close>.
\<close>

definition collect :: "nat \<Rightarrow> cell \<Rightarrow> string set \<Rightarrow> exn + string set" where
  "collect w u ids =
     (case u of
        CStr s \<Rightarrow> Inr (insert s ids)
      | _ \<Rightarrow> (case isnan u of
                Inl e \<Rightarrow> Inl e
              | Inr b \<Rightarrow> if \<not> b
                         then (case py_int u of Inl e \<Rightarrow> Inl e | Inr i \<Rightarrow> Inr (insert (fmt_d w i) ids))
                         else Inr ids))"

definition index_row :: "row \<Rightarrow> index \<Rightarrow> exn + index" where
  "index_row r ix =
     (case index_mrn r (patient_info ix) of
        Inl e \<Rightarrow> Inl e
      | Inr pinfo \<Rightarrow>
     (case collect 4 (col_ucsf_id r) (ucsf_ids ix) of
        Inl e \<Rightarrow> Inl e
      | Inr us \<Rightarrow>
     (case collect 32 (col_ucsf_guid r) (ucsf_guids ix) of
        Inl e \<Rightarrow> Inl e
      | Inr gs \<Rightarrow>
     (case collect 32 (col_nda_guid r) (nda_guids ix) of
        Inl e \<Rightarrow> Inl e
      | Inr ns \<Rightarrow>
          Inr \<lparr>patient_info = pinfo, ucsf_ids = us, ucsf_guids = gs, nda_guids = ns\<rparr>))))"

fun index_rows :: "index \<Rightarrow> row list \<Rightarrow> exn + index" where
  "index_rows ix [] = Inr ix"
| "index_rows ix (r # rs) =
     (case index_row r ix of Inl e \<Rightarrow> Inl e | Inr ix' \<Rightarrow> index_rows ix' rs)"

definition index_records :: "row list \<Rightarrow> exn + index" where
  "index_records records = index_rows empty_index records"

subsection \<open>The duplicate check (lines 126 to 131)\<close>

text \<open>
  \<open>first_name.lower() == p_info[0].lower() and last_name.lower() == p_info[1].lower()\<close>:
  the second comparison is evaluated only when the first holds.
\<close>

definition names_match :: "string \<Rightarrow> string \<Rightarrow> cell \<times> cell \<Rightarrow> exn + bool" where
  "names_match first_name last_name p_info =
     (case cell_lower (fst p_info) of
        Inl e \<Rightarrow> Inl e
      | Inr f \<Rightarrow>
          if lower first_name = f
          then (case cell_lower (snd p_info) of
                  Inl e \<Rightarrow> Inl e
                | Inr l \<Rightarrow> Inr (lower last_name = l))
          else Inr False)"

subsection \<open>Writing and verifying (lines 143 to 152)\<close>

definition record_phi :: "string \<Rightarrow> string \<Rightarrow> string \<Rightarrow> string \<Rightarrow> pyrecord" where
  "record_phi sid mrn first_name last_name =
     [(''record_id'', Some sid), (''redcap_event_name'', Some ''general_phi_arm_1''),
      (''mrn'', Some mrn), (''first_name'', Some first_name), (''last_name'', Some last_name)]"

definition record_info :: "string \<Rightarrow> string \<Rightarrow> string option \<Rightarrow> pyrecord" where
  "record_info sid guid nda_guid =
     [(''record_id'', Some sid), (''redcap_event_name'', Some ''demographics_arm_1''),
      (''ucsf_id'', Some sid), (''ucsf_guid'', Some guid), (''nda_guid'', nda_guid)]"

definition write_records ::
  "project \<Rightarrow> string \<Rightarrow> string \<Rightarrow> string \<Rightarrow> string option \<Rightarrow> string \<Rightarrow> string \<Rightarrow> world
     \<Rightarrow> outcome \<times> world" where
  "write_records db mrn first_name last_name nda_guid sid guid w =
     (let batch = [record_phi sid mrn first_name last_name, record_info sid guid nda_guid];
          w1 = w\<lparr>imported := imported w @ [batch]\<rparr>
      in case import_records db batch of
           Some msg \<Rightarrow> (Raised (ServiceError msg), w1)
         | None \<Rightarrow>
             (case export_by_id db [sid] of
                Some msg \<Rightarrow>
                  (Returned (Some (sid, guid)),
                   w1\<lparr>warnings := warnings w1
                        @ [''Failed to add patient '' @ mrn @ '' to database: '' @ msg]\<rparr>)
              | None \<Rightarrow> (Returned (Some (sid, guid)), w1)))"

subsection \<open>The whole call\<close>

text \<open>Lines 126 to 152, once the export is indexed.\<close>

definition add_indexed ::
  "project \<Rightarrow> index \<Rightarrow> string \<Rightarrow> string \<Rightarrow> string \<Rightarrow> string option \<Rightarrow> string option
     \<Rightarrow> string option \<Rightarrow> world \<Rightarrow> (outcome \<times> world) option" where
  "add_indexed db ix mrn first_name last_name ucsf_id ucsf_guid nda_guid w =
     (case patient_info ix mrn of
        Some p_info \<Rightarrow>
          (case names_match first_name last_name p_info of
             Inl e \<Rightarrow> Some (Raised e, w)
           | Inr same \<Rightarrow>
               if same
               then Some (Returned None,
                          w\<lparr>warnings := warnings w @ [''MRN '' @ mrn @ '' already exists in database.'']\<rparr>)
               else Some (Raised (ValueError
                          (''MRN '' @ mrn @ '' already exists in database with different name.'')), w))
      | None \<Rightarrow>
          (case alloc_ucsf_id ucsf_id (ucsf_ids ix) (random w) of
             None \<Rightarrow> None
           | Some (sid, g1) \<Rightarrow>
               (case alloc_ucsf_guid ucsf_guid (ucsf_guids ix) g1 of
                  None \<Rightarrow> None
                | Some (guid, g2) \<Rightarrow>
                    Some (write_records db mrn first_name last_name nda_guid sid guid
                            (w\<lparr>random := g2\<rparr>)))))"

text \<open>
  \<open>add_patient\<close>; \<open>database\<close> is \<open>self.database\<close>. The result is \<open>None\<close> when a
  rejection loop never ends, and otherwise how the call left (a returned value or a raised
  exception) with the world it leaves.
\<close>

definition add_patient ::
  "project option \<Rightarrow> string \<Rightarrow> string \<Rightarrow> string \<Rightarrow> string option \<Rightarrow> string option
     \<Rightarrow> string option \<Rightarrow> world \<Rightarrow> (outcome \<times> world) option" where
  "add_patient database mrn first_name last_name ucsf_id ucsf_guid nda_guid w =
     (case database of
        None \<Rightarrow> Some (Raised (RuntimeError ''Database not connected.''), w)
      | Some db \<Rightarrow>
          (case export_df db of
             Inl msg \<Rightarrow> Some (Raised (ServiceError msg), w)
           | Inr records \<Rightarrow>
               (case index_records records of
                  Inl e \<Rightarrow> Some (Raised e, w)
                | Inr ix \<Rightarrow>
                    add_indexed db ix mrn first_name last_name ucsf_id ucsf_guid nda_guid w)))"

section \<open>\<open>ucsf_id_lookup\<close>\<close>

text \<open>The body is \<open>pass\<close>: the method returns \<open>None\<close> whatever it is given.\<close>

definition ucsf_id_lookup :: "project option \<Rightarrow> string \<Rightarrow> string \<Rightarrow> string option" where
  "ucsf_id_lookup database ident id_type = None"

section \<open>Facts about the model\<close>

subsection \<open>The rejection loops and the generated identifiers\<close>

lemma add_patient_indexed:
  assumes "export_df db = Inr records" and "index_records records = Inr ix"
  shows "add_patient (Some db) mrn first_name last_name ucsf_id ucsf_guid nda_guid w
         = add_indexed db ix mrn first_name last_name ucsf_id ucsf_guid nda_guid w"
  using assms by (simp add: add_patient_def)

lemma retry_id_fresh: "retry_id ids cur g = Some y \<Longrightarrow> fst y \<notin> ids"
  by (rule retry_id.raw_induct [where P = "\<lambda>ids cur g y. fst y \<notin> ids", rotated])
     (auto split: if_splits)

lemma retry_guid_fresh: "retry_guid ids cur g = Some y \<Longrightarrow> fst y \<notin> ids"
  by (rule retry_guid.raw_induct [where P = "\<lambda>ids cur g y. fst y \<notin> ids", rotated])
     (auto split: if_splits)

lemma retry_id_origin:
  "retry_id ids cur g = Some y \<Longrightarrow> fst y = cur \<or> (\<exists>h. fst y = fst (draw_id h))"
  by (rule retry_id.raw_induct
        [where P = "\<lambda>ids cur g y. fst y = cur \<or> (\<exists>h. fst y = fst (draw_id h))", rotated])
     (fastforce split: if_splits)+

lemma retry_guid_origin:
  "retry_guid ids cur g = Some y \<Longrightarrow> fst y = cur \<or> (\<exists>h. fst y = fst (draw_guid h))"
  by (rule retry_guid.raw_induct
        [where P = "\<lambda>ids cur g y. fst y = cur \<or> (\<exists>h. fst y = fst (draw_guid h))", rotated])
     (fastforce split: if_splits)+

lemma retry_id_first: "cur \<notin> ids \<Longrightarrow> retry_id ids cur g = Some (cur, g)"
  by (subst retry_id.simps) simp

lemma retry_guid_first: "cur \<notin> ids \<Longrightarrow> retry_guid ids cur g = Some (cur, g)"
  by (subst retry_guid.simps) simp

lemma retry_id_returns:
  "fst (draw_id (((snd \<circ> draw_id) ^^ n) g)) \<notin> ids \<Longrightarrow> \<exists>y. retry_id ids cur g = Some y"
proof (induction n arbitrary: cur g)
  case 0
  then have fresh: "fst (draw_id g) \<notin> ids" by simp
  show ?case
  proof (cases "cur \<in> ids")
    case True
    then have "retry_id ids cur g = retry_id ids (fst (draw_id g)) (snd (draw_id g))"
      by (subst retry_id.simps) simp
    then show ?thesis using fresh by (simp add: retry_id_first)
  next
    case False
    then show ?thesis by (simp add: retry_id_first)
  qed
next
  case (Suc n)
  have "fst (draw_id (((snd \<circ> draw_id) ^^ n) (snd (draw_id g)))) \<notin> ids"
    using Suc.prems unfolding funpow_Suc_right comp_apply .
  then obtain y where y: "retry_id ids (fst (draw_id g)) (snd (draw_id g)) = Some y"
    using Suc.IH by blast
  show ?case
  proof (cases "cur \<in> ids")
    case True
    then have "retry_id ids cur g = retry_id ids (fst (draw_id g)) (snd (draw_id g))"
      by (subst retry_id.simps) simp
    then show ?thesis using y by simp
  next
    case False
    then show ?thesis by (simp add: retry_id_first)
  qed
qed

lemma retry_guid_returns:
  "fst (draw_guid (((snd \<circ> draw_guid) ^^ n) g)) \<notin> ids \<Longrightarrow> \<exists>y. retry_guid ids cur g = Some y"
proof (induction n arbitrary: cur g)
  case 0
  then have fresh: "fst (draw_guid g) \<notin> ids" by simp
  show ?case
  proof (cases "cur \<in> ids")
    case True
    then have "retry_guid ids cur g = retry_guid ids (fst (draw_guid g)) (snd (draw_guid g))"
      by (subst retry_guid.simps) simp
    then show ?thesis using fresh by (simp add: retry_guid_first)
  next
    case False
    then show ?thesis by (simp add: retry_guid_first)
  qed
next
  case (Suc n)
  have "fst (draw_guid (((snd \<circ> draw_guid) ^^ n) (snd (draw_guid g)))) \<notin> ids"
    using Suc.prems unfolding funpow_Suc_right comp_apply .
  then obtain y where y: "retry_guid ids (fst (draw_guid g)) (snd (draw_guid g)) = Some y"
    using Suc.IH by blast
  show ?case
  proof (cases "cur \<in> ids")
    case True
    then have "retry_guid ids cur g = retry_guid ids (fst (draw_guid g)) (snd (draw_guid g))"
      by (subst retry_guid.simps) simp
    then show ?thesis using y by simp
  next
    case False
    then show ?thesis by (simp add: retry_guid_first)
  qed
qed

lemma choice_member: "seq \<noteq> [] \<Longrightarrow> choice seq r \<in> set seq"
  by (simp add: choice_def)

lemma draw_id_length: "length (fst (draw_id g)) = 4"
  by (simp add: draw_id_def)

lemma draw_id_chars: "set (fst (draw_id g)) \<subseteq> set valid_id_chars"
proof -
  have "valid_id_chars \<noteq> []" by (simp add: valid_id_chars_def)
  then show ?thesis by (auto simp: draw_id_def choice_member)
qed

lemma hex_char_member: "d < 16 \<Longrightarrow> hex_char d \<in> set ''0123456789abcdef''"
  unfolding hex_char_def by (rule nth_mem) simp

lemma hex_digits_chars: "set (hex_digits n) \<subseteq> set ''0123456789abcdef''"
proof (induction n rule: hex_digits.induct)
  case (1 n)
  show ?case
  proof (cases "n < 16")
    case True
    then show ?thesis using hex_char_member [of n] by (subst hex_digits.simps) simp
  next
    case False
    have "hex_char (n mod 16) \<in> set ''0123456789abcdef''" by (rule hex_char_member) simp
    with False 1 show ?thesis by (subst hex_digits.simps) simp
  qed
qed

lemma hex_digits_length: "n < 16 ^ k \<Longrightarrow> 0 < k \<Longrightarrow> length (hex_digits n) \<le> k"
proof (induction n arbitrary: k rule: hex_digits.induct)
  case (1 n)
  show ?case
  proof (cases "n < 16")
    case True
    then show ?thesis using "1.prems" by (subst hex_digits.simps) simp
  next
    case False
    obtain j where k: "k = Suc j" using "1.prems" by (cases k) auto
    have "0 < j" using False "1.prems" k by (cases j) auto
    moreover have "n div 16 < 16 ^ j" using "1.prems" k by (simp add: less_mult_imp_div_less mult.commute)
    ultimately have "length (hex_digits (n div 16)) \<le> j" using "1.IH" False by blast
    then show ?thesis using False k by (subst hex_digits.simps) simp
  qed
qed

lemma uuid4_int_range: "0 \<le> uuid4_int r \<and> uuid4_int r < 2 ^ 128"
proof -
  define a where "a = int (r mod 2 ^ 128) AND NOT (push_bit 48 0xc000)"
  define b where "b = a OR push_bit 48 0x8000"
  define c where "c = b AND NOT (push_bit 64 0xf000)"
  have x: "0 \<le> int (r mod 2 ^ 128)" "int (r mod 2 ^ 128) < 2 ^ 128"
    by simp_all
  have a: "0 \<le> a" "a < 2 ^ 128"
    using x AND_upper1 [of "int (r mod 2 ^ 128)" "NOT (push_bit 48 0xc000)"] by (simp_all add: a_def)
  have b: "0 \<le> b" "b < 2 ^ 128"
    using a OR_upper [of a 128 "push_bit 48 0x8000"] by (simp_all add: b_def)
  have c: "0 \<le> c" "c < 2 ^ 128"
    using b AND_upper1 [of b "NOT (push_bit 64 0xf000)"] by (simp_all add: c_def)
  have "0 \<le> c OR push_bit 76 4" "c OR push_bit 76 4 < 2 ^ 128"
    using c OR_upper [of c 128 "push_bit 76 4"] by simp_all
  then show ?thesis by (simp add: uuid4_int_def a_def b_def c_def)
qed

lemma uuid_hex_length: "length (uuid_hex (uuid4_int r)) = 32"
proof -
  have "nat (uuid4_int r) < 16 ^ 32"
    using uuid4_int_range [of r] by (simp add: nat_less_iff)
  then have "length (hex_digits (nat (uuid4_int r))) \<le> 32"
    by (rule hex_digits_length) simp
  then show ?thesis by (simp add: uuid_hex_def zfill_def)
qed

lemma uuid_hex_chars: "set (uuid_hex i) \<subseteq> set ''0123456789abcdef''"
  using hex_digits_chars [of "nat i"] by (auto simp: uuid_hex_def zfill_def)

lemma draw_guid_length: "length (fst (draw_guid g)) = 32"
  by (simp add: draw_guid_def uuid_hex_length)

lemma draw_guid_chars: "set (fst (draw_guid g)) \<subseteq> set ''0123456789abcdef''"
  unfolding draw_guid_def fst_conv by (rule uuid_hex_chars)

subsection \<open>Writing the two records\<close>

lemma write_records_verified:
  assumes "import_records db [record_phi sid mrn first_name last_name, record_info sid guid nda_guid] = None"
    and "export_by_id db [sid] = None"
  shows "write_records db mrn first_name last_name nda_guid sid guid w
         = (Returned (Some (sid, guid)),
            w\<lparr>imported := imported w
                 @ [[record_phi sid mrn first_name last_name, record_info sid guid nda_guid]]\<rparr>)"
  using assms by (simp add: write_records_def)

lemma write_records_unverified:
  assumes "import_records db [record_phi sid mrn first_name last_name, record_info sid guid nda_guid] = None"
    and "export_by_id db [sid] = Some msg"
  shows "write_records db mrn first_name last_name nda_guid sid guid w
         = (Returned (Some (sid, guid)),
            w\<lparr>imported := imported w
                 @ [[record_phi sid mrn first_name last_name, record_info sid guid nda_guid]],
              warnings := warnings w @ [''Failed to add patient '' @ mrn @ '' to database: '' @ msg]\<rparr>)"
  using assms by (simp add: write_records_def)

lemma write_records_imported:
  "imported (snd (write_records db mrn first_name last_name nda_guid sid guid w))
   = imported w @ [[record_phi sid mrn first_name last_name, record_info sid guid nda_guid]]"
  by (simp add: write_records_def Let_def split: option.splits)

lemma write_records_raised:
  assumes "import_records db [record_phi sid mrn first_name last_name, record_info sid guid nda_guid]
           = Some msg"
  shows "write_records db mrn first_name last_name nda_guid sid guid w
         = (Raised (ServiceError msg),
            w\<lparr>imported := imported w
                 @ [[record_phi sid mrn first_name last_name, record_info sid guid nda_guid]]\<rparr>)"
  using assms by (simp add: write_records_def)

lemma write_records_returned:
  assumes "import_records db [record_phi sid mrn first_name last_name, record_info sid guid nda_guid] = None"
  shows "fst (write_records db mrn first_name last_name nda_guid sid guid w) = Returned (Some (sid, guid))"
  using assms by (simp add: write_records_def Let_def split: option.splits)

lemma add_indexed_insert:
  assumes "patient_info ix mrn = None"
    and "alloc_ucsf_id ucsf_id (ucsf_ids ix) (random w) = Some (sid, g1)"
    and "alloc_ucsf_guid ucsf_guid (ucsf_guids ix) g1 = Some (guid, g2)"
  shows "add_indexed db ix mrn first_name last_name ucsf_id ucsf_guid nda_guid w
         = Some (write_records db mrn first_name last_name nda_guid sid guid (w\<lparr>random := g2\<rparr>))"
  using assms by (simp add: add_indexed_def)

lemma add_indexed_insert_cases:
  assumes "patient_info ix mrn = None"
    and "add_indexed db ix mrn first_name last_name ucsf_id ucsf_guid nda_guid w = Some y"
  obtains sid g1 guid g2 where
    "alloc_ucsf_id ucsf_id (ucsf_ids ix) (random w) = Some (sid, g1)"
    "alloc_ucsf_guid ucsf_guid (ucsf_guids ix) g1 = Some (guid, g2)"
    "y = write_records db mrn first_name last_name nda_guid sid guid (w\<lparr>random := g2\<rparr>)"
  using assms by (auto simp: add_indexed_def split: option.splits)

lemma alloc_ucsf_id_fresh:
  "alloc_ucsf_id None ids g = Some y \<Longrightarrow> fst y \<notin> ids"
  by (simp add: alloc_ucsf_id_def retry_id_fresh)

lemma alloc_ucsf_guid_fresh:
  "alloc_ucsf_guid None ids g = Some y \<Longrightarrow> fst y \<notin> ids"
  by (simp add: alloc_ucsf_guid_def retry_guid_fresh)

lemma alloc_ucsf_id_first:
  "fst (draw_id g) \<notin> ids \<Longrightarrow> alloc_ucsf_id None ids g = Some (draw_id g)"
  by (simp add: alloc_ucsf_id_def retry_id_first)

lemma alloc_ucsf_guid_first:
  "fst (draw_guid g) \<notin> ids \<Longrightarrow> alloc_ucsf_guid None ids g = Some (draw_guid g)"
  by (simp add: alloc_ucsf_guid_def retry_guid_first)

lemma alloc_ucsf_id_drawn:
  "alloc_ucsf_id None ids g = Some y \<Longrightarrow> \<exists>h. fst y = fst (draw_id h)"
  using retry_id_origin [of ids "fst (draw_id g)" "snd (draw_id g)" y]
  by (auto simp: alloc_ucsf_id_def)

lemma alloc_ucsf_guid_drawn:
  "alloc_ucsf_guid None ids g = Some y \<Longrightarrow> \<exists>h. fst y = fst (draw_guid h)"
  using retry_guid_origin [of ids "fst (draw_guid g)" "snd (draw_guid g)" y]
  by (auto simp: alloc_ucsf_guid_def)

subsection \<open>Name cells that are not strings\<close>

text \<open>
  A missing name is NaN in the frame, and a number has no \<open>lower\<close>: the comparison of
  line 127 then raises \<open>AttributeError\<close>, which is neither the warning nor the conflict.
\<close>

lemma names_match_strings:
  "names_match first_name last_name (CStr f, CStr l)
   = Inr (lower first_name = lower f \<and> lower last_name = lower l)"
  by (simp add: names_match_def cell_lower_def)

lemma names_match_missing_first:
  "\<not> is_str c \<Longrightarrow> names_match first_name last_name (c, d) = Inl AttributeError"
  by (cases c) (simp_all add: names_match_def cell_lower_def is_str_def)

lemma names_match_missing_last:
  "\<not> is_str d \<Longrightarrow> lower first_name = lower f
   \<Longrightarrow> names_match first_name last_name (CStr f, d) = Inl AttributeError"
  by (cases d) (simp_all add: names_match_def cell_lower_def is_str_def)

lemma conflict_raises_value_error:
  assumes "export_df db = Inr records"
    and "index_records records = Inr ix"
    and "patient_info ix mrn = Some (CStr f, c)"
    and "lower first_name \<noteq> lower f \<or> (\<exists>l. c = CStr l \<and> lower last_name \<noteq> lower l)"
  shows "add_patient (Some db) mrn first_name last_name ucsf_id ucsf_guid nda_guid w
         = Some (Raised (ValueError (''MRN '' @ mrn @ '' already exists in database with different name.'')),
                 w)"
  using assms(3,4)
  by (auto simp: add_patient_indexed [OF assms(1,2)] add_indexed_def names_match_def cell_lower_def)

lemma indexed_mrn_is_never_imported:
  assumes "export_df db = Inr records"
    and "index_records records = Inr ix"
    and "patient_info ix mrn = Some p"
    and "add_patient (Some db) mrn first_name last_name ucsf_id ucsf_guid nda_guid w = Some (out, w')"
  shows "imported w' = imported w"
  using assms(3,4)
  by (auto simp: add_patient_indexed [OF assms(1,2)] add_indexed_def split: sum.splits if_splits)

subsection \<open>An export that cannot be indexed\<close>

lemma index_rows_append:
  "index_rows ix (xs @ ys)
   = (case index_rows ix xs of Inl e \<Rightarrow> Inl e | Inr ix' \<Rightarrow> index_rows ix' ys)"
  by (induction xs arbitrary: ix) (simp_all split: sum.splits)

lemma index_row_mrn_error:
  "index_mrn r (patient_info ix) = Inl e \<Longrightarrow> index_row r ix = Inl e"
  by (simp add: index_row_def)

lemma add_patient_index_error:
  assumes "export_df db = Inr (before @ r # after)"
    and "index_rows empty_index before = Inr ix"
    and "index_mrn r (patient_info ix) = Inl e"
  shows "add_patient (Some db) mrn first_name last_name ucsf_id ucsf_guid nda_guid w
         = Some (Raised e, w)"
proof -
  have "index_records (before @ r # after) = Inl e"
    using assms(2) index_row_mrn_error [OF assms(3)]
    by (simp add: index_records_def index_rows_append)
  then show ?thesis using assms(1) by (simp add: add_patient_def)
qed

lemma isnan_overflow:
  "\<not> fits_float n \<Longrightarrow> col_mrn r = CInt n \<Longrightarrow> index_mrn r pinfo = Inl OverflowError"
  by (simp add: index_mrn_def is_str_def isnan_def)

subsection \<open>Worked values\<close>

lemma py_int_00001234: "py_int (CStr ''00001234'') = Inr 1234"
  by (simp add: py_int_def str_to_int_def is_space_def is_digit_def digit_val_def digits_val_def
      int_max_str_digits_def)

lemma fmt_d_8_1234: "fmt_d 8 1234 = ''00001234''"
  by code_simp

lemma collect_nan: "collect n CNaN ids = Inr ids"
  by (simp add: collect_def isnan_def)

lemma collect_str: "collect n (CStr s) ids = Inr (insert s ids)"
  by (simp add: collect_def)

lemma index_mrn_nan: "col_mrn r = CNaN \<Longrightarrow> index_mrn r pinfo = Inr pinfo"
  by (simp add: index_mrn_def is_str_def isnan_def)

lemma index_mrn_str:
  "col_mrn r = CStr s \<Longrightarrow> str_to_int s = Inr i \<Longrightarrow>
   index_mrn r pinfo = Inr (pinfo(fmt_d 8 i \<mapsto> (col_first_name r, col_last_name r)))"
  by (simp add: index_mrn_def is_str_def py_int_def)

lemma index_jane_doe:
  "index_records
     [\<lparr>col_record_id = CStr ''AB12'', col_ucsf_id = CNaN, col_ucsf_guid = CNaN, col_nda_guid = CNaN,
       col_mrn = CStr ''00001234'', col_first_name = CStr ''Jane'', col_last_name = CStr ''Doe''\<rparr>]
   = Inr \<lparr>patient_info = [''00001234'' \<mapsto> (CStr ''Jane'', CStr ''Doe'')],
          ucsf_ids = {}, ucsf_guids = {}, nda_guids = {}\<rparr>"
  using py_int_00001234
  by (simp add: index_records_def index_row_def empty_index_def collect_nan index_mrn_str
      py_int_def fmt_d_8_1234)

lemma draw_id_example: "draw_id \<lparr>src = \<lambda>i. i, pos = 0\<rparr> = (''ABCD'', \<lparr>src = \<lambda>i. i, pos = 4\<rparr>)"
  by (simp add: draw_id_def choice_def valid_id_chars_def upt_rec)

lemma draw_guid_example:
  "draw_guid \<lparr>src = \<lambda>i. i, pos = 4\<rparr>
   = (''00000000000040008000000000000004'', \<lparr>src = \<lambda>i. i, pos = 5\<rparr>)"
proof -
  have "replicate 12 CHR ''0'' = ''000000000000''" by code_simp
  then show ?thesis
    by (simp add: draw_guid_def uuid_hex_def uuid4_int_def hex_digits.simps hex_char_def zfill_def)
qed

subsection \<open>How a call that returns a pair went\<close>

lemma write_records_pair:
  "write_records db mrn first_name last_name nda_guid sid guid w = (Returned (Some (s, t)), w')
   \<Longrightarrow> s = sid \<and> t = guid"
  by (auto simp: write_records_def Let_def split: option.splits)

lemma add_patient_returned_pair:
  assumes "add_patient database mrn first_name last_name ucsf_id ucsf_guid nda_guid w
           = Some (Returned (Some (sid, guid)), w')"
  obtains db records ix g1 g2 where
    "database = Some db" "export_df db = Inr records" "index_records records = Inr ix"
    "patient_info ix mrn = None"
    "alloc_ucsf_id ucsf_id (ucsf_ids ix) (random w) = Some (sid, g1)"
    "alloc_ucsf_guid ucsf_guid (ucsf_guids ix) g1 = Some (guid, g2)"
    "write_records db mrn first_name last_name nda_guid sid guid (w\<lparr>random := g2\<rparr>)
     = (Returned (Some (sid, guid)), w')"
proof -
  obtain db where db: "database = Some db"
    using assms by (cases database) (auto simp: add_patient_def)
  obtain records where records: "export_df db = Inr records"
    using assms db by (cases "export_df db") (auto simp: add_patient_def)
  obtain ix where ix: "index_records records = Inr ix"
    using assms db records by (cases "index_records records") (auto simp: add_patient_def)
  have run: "add_indexed db ix mrn first_name last_name ucsf_id ucsf_guid nda_guid w
             = Some (Returned (Some (sid, guid)), w')"
    using assms db by (simp add: add_patient_indexed [OF records ix])
  have fresh: "patient_info ix mrn = None"
    using run by (auto simp: add_indexed_def split: option.splits sum.splits if_splits)
  from fresh run obtain s g1 t g2 where
    a: "alloc_ucsf_id ucsf_id (ucsf_ids ix) (random w) = Some (s, g1)" and
    b: "alloc_ucsf_guid ucsf_guid (ucsf_guids ix) g1 = Some (t, g2)" and
    c: "(Returned (Some (sid, guid)), w')
        = write_records db mrn first_name last_name nda_guid s t (w\<lparr>random := g2\<rparr>)"
    by (rule add_indexed_insert_cases)
  from c have "s = sid \<and> t = guid" using write_records_pair [of db mrn first_name last_name nda_guid s t] by metis
  with a b c db records ix fresh that show thesis by simp
qed

subsection \<open>The keys of the patient map\<close>

lemma index_mrn_keys:
  assumes "index_mrn r pinfo = Inr pinfo'" and "pinfo' k = Some v"
  shows "pinfo k = Some v \<or> (\<exists>i. py_int (col_mrn r) = Inr i \<and> k = fmt_d 8 i)"
  using assms by (auto simp: index_mrn_def Let_def split: if_splits sum.splits)

lemma index_row_keys:
  assumes "index_row r ix = Inr ix'" and "patient_info ix' k = Some v"
  shows "patient_info ix k = Some v \<or> (\<exists>i. py_int (col_mrn r) = Inr i \<and> k = fmt_d 8 i)"
proof -
  from assms(1) obtain pinfo where "index_mrn r (patient_info ix) = Inr pinfo" "patient_info ix' = pinfo"
    by (auto simp: index_row_def split: sum.splits)
  with assms(2) show ?thesis using index_mrn_keys by metis
qed

lemma index_rows_keys:
  assumes "index_rows ix rs = Inr ix'" and "patient_info ix' k = Some v"
  shows "patient_info ix k = Some v
         \<or> (\<exists>r \<in> set rs. \<exists>i. py_int (col_mrn r) = Inr i \<and> k = fmt_d 8 i)"
  using assms
proof (induction rs arbitrary: ix)
  case Nil
  then show ?case by simp
next
  case (Cons r rs)
  from Cons.prems(1) obtain ix1 where step: "index_row r ix = Inr ix1" and rest: "index_rows ix1 rs = Inr ix'"
    by (auto split: sum.splits)
  from Cons.IH [OF rest Cons.prems(2)] show ?case
  proof
    assume "patient_info ix1 k = Some v"
    with step index_row_keys show ?thesis by fastforce
  next
    assume "\<exists>r \<in> set rs. \<exists>i. py_int (col_mrn r) = Inr i \<and> k = fmt_d 8 i"
    then show ?thesis by auto
  qed
qed

lemma index_records_keys:
  assumes "index_records rs = Inr ix" and "patient_info ix k = Some v"
  shows "\<exists>r \<in> set rs. \<exists>i. py_int (col_mrn r) = Inr i \<and> k = fmt_d 8 i"
  using index_rows_keys [of empty_index rs ix k v] assms
  by (simp add: index_records_def empty_index_def)

lemma add_indexed_ignores_nda_guids:
  "add_indexed db (ix\<lparr>nda_guids := others\<rparr>) mrn first_name last_name ucsf_id ucsf_guid nda_guid w
   = add_indexed db ix mrn first_name last_name ucsf_id ucsf_guid nda_guid w"
  by (simp add: add_indexed_def cong: option.case_cong prod.case_cong)

subsection \<open>When the loops end\<close>

lemma alloc_ucsf_id_returns:
  assumes "fst (draw_id (((snd \<circ> draw_id) ^^ n) g)) \<notin> ids"
  shows "\<exists>y. alloc_ucsf_id None ids g = Some y"
proof (cases n)
  case 0
  with assms show ?thesis by (simp add: alloc_ucsf_id_first)
next
  case (Suc m)
  from assms have "fst (draw_id (((snd \<circ> draw_id) ^^ Suc m) g)) \<notin> ids"
    unfolding Suc .
  then have "fst (draw_id (((snd \<circ> draw_id) ^^ m) (snd (draw_id g)))) \<notin> ids"
    unfolding funpow_Suc_right comp_apply .
  then show ?thesis
    unfolding alloc_ucsf_id_def option.case by (rule retry_id_returns)
qed

lemma alloc_ucsf_guid_returns:
  assumes "fst (draw_guid (((snd \<circ> draw_guid) ^^ n) g)) \<notin> ids"
  shows "\<exists>y. alloc_ucsf_guid None ids g = Some y"
proof (cases n)
  case 0
  with assms show ?thesis by (simp add: alloc_ucsf_guid_first)
next
  case (Suc m)
  from assms have "fst (draw_guid (((snd \<circ> draw_guid) ^^ Suc m) g)) \<notin> ids"
    unfolding Suc .
  then have "fst (draw_guid (((snd \<circ> draw_guid) ^^ m) (snd (draw_guid g)))) \<notin> ids"
    unfolding funpow_Suc_right comp_apply .
  then show ?thesis
    unfolding alloc_ucsf_guid_def option.case by (rule retry_guid_returns)
qed

subsection \<open>Two worked calls\<close>

lemma run_on_empty_export:
  "add_patient
     (Some \<lparr>export_df = Inr [], import_records = (\<lambda>batch. None), export_by_id = (\<lambda>ids. None)\<rparr>)
     ''00000001'' ''A'' ''B'' None None None
     \<lparr>random = \<lparr>src = \<lambda>i. i, pos = 0\<rparr>, warnings = [], imported = []\<rparr>
   = Some (Returned (Some (''ABCD'', ''00000000000040008000000000000004'')),
           \<lparr>random = \<lparr>src = \<lambda>i. i, pos = 5\<rparr>, warnings = [],
            imported =
              [[record_phi ''ABCD'' ''00000001'' ''A'' ''B'',
                record_info ''ABCD'' ''00000000000040008000000000000004'' None]]\<rparr>)"
proof -
  let ?db = "\<lparr>export_df = Inr [], import_records = (\<lambda>batch. None), export_by_id = (\<lambda>ids. None)\<rparr>"
  have ix: "index_records [] = Inr empty_index" by (simp add: index_records_def)
  have a: "alloc_ucsf_id None (ucsf_ids empty_index)
             (random \<lparr>random = \<lparr>src = \<lambda>i. i, pos = 0\<rparr>, warnings = [], imported = []\<rparr>)
           = Some (''ABCD'', \<lparr>src = \<lambda>i. i, pos = 4\<rparr>)"
    using alloc_ucsf_id_first [of "\<lparr>src = \<lambda>i. i, pos = 0\<rparr>" "{}"]
    by (simp add: draw_id_example empty_index_def)
  have b: "alloc_ucsf_guid None (ucsf_guids empty_index) \<lparr>src = \<lambda>i. i, pos = 4\<rparr>
           = Some (''00000000000040008000000000000004'', \<lparr>src = \<lambda>i. i, pos = 5\<rparr>)"
    using alloc_ucsf_guid_first [of "\<lparr>src = \<lambda>i. i, pos = 4\<rparr>" "{}"]
    by (simp add: draw_guid_example empty_index_def)
  have none: "patient_info empty_index ''00000001'' = None" by (simp add: empty_index_def)
  have "export_df ?db = Inr []" by simp
  from add_patient_indexed [OF this ix] show ?thesis
    by (simp add: add_indexed_insert [OF none a b] write_records_verified)
qed

lemma index_two_taken:
  "index_records
     [\<lparr>col_record_id = CStr ''AB12'', col_ucsf_id = CStr ''AB12'',
       col_ucsf_guid = CStr ''0000000000004000800000000000000c'', col_nda_guid = CNaN,
       col_mrn = CNaN, col_first_name = CNaN, col_last_name = CNaN\<rparr>,
      \<lparr>col_record_id = CStr ''CD34'', col_ucsf_id = CStr ''CD34'',
       col_ucsf_guid = CNaN, col_nda_guid = CNaN,
       col_mrn = CNaN, col_first_name = CNaN, col_last_name = CNaN\<rparr>]
   = Inr \<lparr>patient_info = Map.empty, ucsf_ids = {''CD34'', ''AB12''},
          ucsf_guids = {''0000000000004000800000000000000c''}, nda_guids = {}\<rparr>"
  by (simp add: index_records_def index_row_def empty_index_def collect_str collect_nan index_mrn_nan)

lemma alloc_id_after_two_collisions:
  "alloc_ucsf_id None {''CD34'', ''AB12''}
     \<lparr>src = \<lambda>i. if i < 12 then [0, 1, 27, 28, 2, 3, 29, 30, 4, 5, 31, 32] ! i else i, pos = 0\<rparr>
   = Some (''EF56'',
       \<lparr>src = \<lambda>i. if i < 12 then [0, 1, 27, 28, 2, 3, 29, 30, 4, 5, 31, 32] ! i else i, pos = 12\<rparr>)"
  by (simp add: alloc_ucsf_id_def retry_id.simps draw_id_def choice_def valid_id_chars_def upt_rec)

lemma alloc_guid_after_one_collision:
  "alloc_ucsf_guid None {''0000000000004000800000000000000c''}
     \<lparr>src = \<lambda>i. if i < 12 then [0, 1, 27, 28, 2, 3, 29, 30, 4, 5, 31, 32] ! i else i, pos = 12\<rparr>
   = Some (''0000000000004000800000000000000d'',
       \<lparr>src = \<lambda>i. if i < 12 then [0, 1, 27, 28, 2, 3, 29, 30, 4, 5, 31, 32] ! i else i, pos = 14\<rparr>)"
proof -
  have "replicate 12 CHR ''0'' = ''000000000000''" by code_simp
  then show ?thesis
    by (simp add: alloc_ucsf_guid_def retry_guid.simps draw_guid_def uuid_hex_def uuid4_int_def
        hex_digits.simps hex_char_def zfill_def)
qed

lemma run_with_collisions:
  "add_patient
     (Some \<lparr>export_df = Inr
        [\<lparr>col_record_id = CStr ''AB12'', col_ucsf_id = CStr ''AB12'',
          col_ucsf_guid = CStr ''0000000000004000800000000000000c'', col_nda_guid = CNaN,
          col_mrn = CNaN, col_first_name = CNaN, col_last_name = CNaN\<rparr>,
         \<lparr>col_record_id = CStr ''CD34'', col_ucsf_id = CStr ''CD34'',
          col_ucsf_guid = CNaN, col_nda_guid = CNaN,
          col_mrn = CNaN, col_first_name = CNaN, col_last_name = CNaN\<rparr>],
        import_records = (\<lambda>batch. None), export_by_id = (\<lambda>ids. None)\<rparr>)
     ''00000001'' ''A'' ''B'' None None None
     \<lparr>random = \<lparr>src = \<lambda>i. if i < 12 then [0, 1, 27, 28, 2, 3, 29, 30, 4, 5, 31, 32] ! i else i,
                 pos = 0\<rparr>,
      warnings = [], imported = []\<rparr>
   = Some (Returned (Some (''EF56'', ''0000000000004000800000000000000d'')),
           \<lparr>random = \<lparr>src = \<lambda>i. if i < 12 then [0, 1, 27, 28, 2, 3, 29, 30, 4, 5, 31, 32] ! i else i,
                       pos = 14\<rparr>,
            warnings = [],
            imported =
              [[record_phi ''EF56'' ''00000001'' ''A'' ''B'',
                record_info ''EF56'' ''0000000000004000800000000000000d'' None]]\<rparr>)"
proof -
  let ?rows = "[\<lparr>col_record_id = CStr ''AB12'', col_ucsf_id = CStr ''AB12'',
          col_ucsf_guid = CStr ''0000000000004000800000000000000c'', col_nda_guid = CNaN,
          col_mrn = CNaN, col_first_name = CNaN, col_last_name = CNaN\<rparr>,
         \<lparr>col_record_id = CStr ''CD34'', col_ucsf_id = CStr ''CD34'',
          col_ucsf_guid = CNaN, col_nda_guid = CNaN,
          col_mrn = CNaN, col_first_name = CNaN, col_last_name = CNaN\<rparr>]"
  let ?db = "\<lparr>export_df = Inr ?rows, import_records = (\<lambda>batch. None), export_by_id = (\<lambda>ids. None)\<rparr>"
  let ?ix = "\<lparr>patient_info = Map.empty, ucsf_ids = {''CD34'', ''AB12''},
          ucsf_guids = {''0000000000004000800000000000000c''}, nda_guids = {}\<rparr>"
  have none: "patient_info ?ix ''00000001'' = None" by simp
  have "export_df ?db = Inr ?rows" by simp
  from add_patient_indexed [OF this index_two_taken] show ?thesis
    using alloc_id_after_two_collisions alloc_guid_after_one_collision
    by (simp add: add_indexed_insert [OF none] write_records_verified)
qed

subsection \<open>Parsing and formatting decimal digits\<close>

lemma digit_table: "\<forall>n \<in> set [48 ..< 58]. ''0123456789'' ! (n - 48) = char_of n"
  by code_simp

lemma digit_char_val:
  assumes "is_digit d"
  shows "digit_char (digit_val d) = d"
proof -
  have "(of_char d :: nat) \<in> {48 ..< 58}"
    using assms by (auto simp: is_digit_def)
  then have "(of_char d :: nat) \<in> set [48 ..< 58]"
    by (simp only: set_upt)
  with digit_table have "''0123456789'' ! (of_char d - 48) = char_of (of_char d :: nat)"
    by blast
  then show ?thesis by (simp add: digit_char_def digit_val_def)
qed

lemma digit_val_less: "is_digit d \<Longrightarrow> digit_val d < 10"
  by (auto simp: is_digit_def digit_val_def)

lemma digit_is_plain:
  assumes "is_digit d"
  shows "\<not> is_space d" and "d \<noteq> CHR ''+''" and "d \<noteq> CHR ''-''" and "d \<noteq> CHR ''_''"
  using assms by (auto simp: is_digit_def is_space_def)

lemma digits_val_snoc: "digits_val (ds @ [d]) = 10 * digits_val ds + digit_val d"
  by (simp add: digits_val_def)

lemma dec_digits_step:
  assumes "x < 10"
  shows "dec_digits (10 * v + x) = (if v = 0 then [digit_char x] else dec_digits v @ [digit_char x])"
  using assms by (subst dec_digits.simps) auto

lemma zfill_dec_digits:
  assumes "ds \<noteq> []" and "\<forall>c \<in> set ds. is_digit c"
  shows "zfill (length ds) (dec_digits (digits_val ds)) = ds"
  using assms
proof (induction ds rule: rev_induct)
  case Nil
  then show ?case by simp
next
  case (snoc d ds)
  have d: "is_digit d" using snoc.prems(2) by simp
  note step = dec_digits_step [OF digit_val_less [OF d], of "digits_val ds"]
  have single: "dec_digits (digit_val d) = [d]"
    using digit_val_less [OF d] digit_char_val [OF d] by (subst dec_digits.simps) simp
  show ?case
  proof (cases "ds = []")
    case True
    with single show ?thesis
      by (simp add: digits_val_def zfill_def)
  next
    case False
    with snoc have ih: "zfill (length ds) (dec_digits (digits_val ds)) = ds" by simp
    show ?thesis
    proof (cases "digits_val ds = 0")
      case True
      have "dec_digits 0 = [CHR ''0'']" by (subst dec_digits.simps) (simp add: digit_char_def)
      with ih True have "replicate (length ds - 1) CHR ''0'' @ [CHR ''0''] = ds"
        by (simp add: zfill_def)
      moreover have "replicate (length ds - 1) CHR ''0'' @ [CHR ''0''] = replicate (length ds) CHR ''0''"
        using False by (cases ds) (simp_all add: replicate_append_same)
      ultimately have "replicate (length ds) CHR ''0'' = ds" by simp
      then show ?thesis
        using True by (simp add: digits_val_snoc single zfill_def)
    next
      case nonzero: False
      then show ?thesis
        using d ih by (simp add: digits_val_snoc step digit_char_val zfill_def)
    qed
  qed
qed

lemma no_double_underscore: "CHR ''_'' \<notin> set s \<Longrightarrow> \<not> double_underscore s"
  by (induction s rule: double_underscore.induct) auto

lemma str_to_int_digits:
  assumes "s \<noteq> []" and "\<forall>c \<in> set s. is_digit c" and "length s \<le> int_max_str_digits"
  shows "str_to_int s = Inr (int (digits_val s))"
proof -
  obtain c cs where s: "s = c # cs" using assms(1) by (cases s) auto
  have c: "is_digit c" using assms(2) s by simp
  have trim: "dropWhile is_space s = s"
    using digit_is_plain(1) [OF c] by (simp add: s)
  have sign: "hd s \<noteq> CHR ''+''" "hd s \<noteq> CHR ''-''" "hd s \<noteq> CHR ''_''"
    using digit_is_plain [OF c] by (simp_all add: s)
  have body: "takeWhile (\<lambda>c. is_digit c \<or> c = CHR ''_'') s = s"
    using assms(2) by (simp add: takeWhile_eq_all_conv)
  have rest: "dropWhile (\<lambda>c. is_digit c \<or> c = CHR ''_'') s = []"
    using assms(2) by simp
  have keep: "filter is_digit s = s"
    using assms(2) by simp
  have "is_digit (last s)" using assms(1,2) by simp
  then have last: "last s \<noteq> CHR ''_''" using digit_is_plain(4) by blast
  have "CHR ''_'' \<notin> set s" using assms(2) digit_is_plain(4) by blast
  then have twice: "\<not> double_underscore s" by (rule no_double_underscore)
  show ?thesis
    unfolding str_to_int_def Let_def trim
    using assms(1,3) sign last twice by (simp add: body rest keep)
qed

lemma eight_digits_roundtrip:
  assumes "length s = 8" and "\<forall>c \<in> set s. is_digit c"
  shows "str_to_int s = Inr (int (digits_val s))" and "fmt_d 8 (int (digits_val s)) = s"
proof -
  have nonempty: "s \<noteq> []" using assms(1) by auto
  show "str_to_int s = Inr (int (digits_val s))"
    using nonempty assms by (intro str_to_int_digits) (simp_all add: int_max_str_digits_def)
  show "fmt_d 8 (int (digits_val s)) = s"
    using zfill_dec_digits [OF nonempty assms(2)] assms(1) by (simp add: fmt_d_def)
qed

lemma py_int_1234: "py_int (CStr ''1234'') = Inr 1234"
  by (simp add: py_int_def str_to_int_def is_space_def is_digit_def digit_val_def digits_val_def
      int_max_str_digits_def)

lemma py_int_12a4: "py_int (CStr ''12a4'') = Inl InvalidLiteral"
  by (simp add: py_int_def str_to_int_def is_space_def is_digit_def digit_val_def digits_val_def
      int_max_str_digits_def)

section \<open>The claims\<close>

text \<open>
  C1. For every insertion into an export whose sets of existing identifiers do not contain
  the generated values (the caller's \<open>mrn\<close> is not indexed, no identifier is supplied,
  the first short ID and the first GUID drawn are new, and \<open>import_records\<close> returns),
  \<open>add_patient\<close> submits one batch of exactly two record dictionaries that share the
  generated short ID as \<open>record_id\<close>, the PHI one with \<open>mrn\<close>, \<open>first_name\<close> and
  \<open>last_name\<close>, the demographics one with \<open>ucsf_id\<close>, \<open>ucsf_guid\<close> and \<open>nda_guid\<close>,
  and returns the pair of the short ID and the GUID.
\<close>

theorem insertion_submits_one_batch:
  assumes "export_df db = Inr records"
    and "index_records records = Inr ix"
    and "patient_info ix mrn = None"
    and "draw_id (random w) = (sid, g1)"
    and "sid \<notin> ucsf_ids ix"
    and "draw_guid g1 = (guid, g2)"
    and "guid \<notin> ucsf_guids ix"
    and "import_records db [record_phi sid mrn first_name last_name, record_info sid guid nda_guid] = None"
  shows "\<exists>w'. add_patient (Some db) mrn first_name last_name None None nda_guid w
               = Some (Returned (Some (sid, guid)), w')
             \<and> imported w' = imported w
                 @ [[[(''record_id'', Some sid), (''redcap_event_name'', Some ''general_phi_arm_1''),
                      (''mrn'', Some mrn), (''first_name'', Some first_name),
                      (''last_name'', Some last_name)],
                     [(''record_id'', Some sid), (''redcap_event_name'', Some ''demographics_arm_1''),
                      (''ucsf_id'', Some sid), (''ucsf_guid'', Some guid), (''nda_guid'', nda_guid)]]]"
proof -
  have a: "alloc_ucsf_id None (ucsf_ids ix) (random w) = Some (sid, g1)"
    using assms(4,5) alloc_ucsf_id_first [of "random w" "ucsf_ids ix"] by simp
  have b: "alloc_ucsf_guid None (ucsf_guids ix) g1 = Some (guid, g2)"
    using assms(6,7) alloc_ucsf_guid_first [of g1 "ucsf_guids ix"] by simp
  let ?res = "write_records db mrn first_name last_name nda_guid sid guid (w\<lparr>random := g2\<rparr>)"
  have "add_patient (Some db) mrn first_name last_name None None nda_guid w = Some ?res"
    by (simp add: add_patient_indexed [OF assms(1,2)] add_indexed_insert [OF assms(3) a b])
  moreover have "fst ?res = Returned (Some (sid, guid))"
    using assms(8) by (rule write_records_returned)
  moreover have "imported (snd ?res) = imported w
      @ [[record_phi sid mrn first_name last_name, record_info sid guid nda_guid]]"
    by (simp add: write_records_imported)
  ultimately show ?thesis
    by (intro exI [of _ "snd ?res"]) (simp add: record_phi_def record_info_def prod_eq_iff)
qed

theorem insertion_submits_one_batch_witness:
  "\<exists>w'. add_patient
           (Some \<lparr>export_df = Inr [], import_records = (\<lambda>batch. None), export_by_id = (\<lambda>ids. None)\<rparr>)
           ''00000001'' ''A'' ''B'' None None None
           \<lparr>random = \<lparr>src = \<lambda>i. i, pos = 0\<rparr>, warnings = [], imported = []\<rparr>
         = Some (Returned (Some (''ABCD'', ''00000000000040008000000000000004'')), w')
       \<and> imported w'
         = [[[(''record_id'', Some ''ABCD''), (''redcap_event_name'', Some ''general_phi_arm_1''),
              (''mrn'', Some ''00000001''), (''first_name'', Some ''A''), (''last_name'', Some ''B'')],
             [(''record_id'', Some ''ABCD''), (''redcap_event_name'', Some ''demographics_arm_1''),
              (''ucsf_id'', Some ''ABCD''),
              (''ucsf_guid'', Some ''00000000000040008000000000000004''), (''nda_guid'', None)]]]"
proof -
  have ix: "index_records [] = Inr empty_index" by (simp add: index_records_def)
  show ?thesis
    using insertion_submits_one_batch
      [of "\<lparr>export_df = Inr [], import_records = (\<lambda>batch. None), export_by_id = (\<lambda>ids. None)\<rparr>"
          "[]" empty_index "''00000001''"
          "\<lparr>random = \<lparr>src = \<lambda>i. i, pos = 0\<rparr>, warnings = [], imported = []\<rparr>"
          "''ABCD''" "\<lparr>src = \<lambda>i. i, pos = 4\<rparr>" "''00000000000040008000000000000004''"
          "\<lparr>src = \<lambda>i. i, pos = 5\<rparr>" "''A''" "''B''" None]
    by (simp add: ix draw_id_example draw_guid_example empty_index_def)
qed

text \<open>
  C2. For every export whose indexed table maps the caller's \<open>mrn\<close> to a pair of names
  equal to the call's \<open>first_name\<close> and \<open>last_name\<close> when both sides are lower-cased,
  \<open>add_patient\<close> emits the warning and returns without a value; nothing is submitted to
  \<open>import_records\<close> (the world changes in its warnings only).
\<close>

theorem duplicate_patient_is_warned:
  assumes "export_df db = Inr records"
    and "index_records records = Inr ix"
    and "patient_info ix mrn = Some (CStr f, CStr l)"
    and "lower first_name = lower f"
    and "lower last_name = lower l"
  shows "add_patient (Some db) mrn first_name last_name ucsf_id ucsf_guid nda_guid w
         = Some (Returned None,
                 w\<lparr>warnings := warnings w @ [''MRN '' @ mrn @ '' already exists in database.'']\<rparr>)"
  using assms
  by (simp add: add_patient_indexed [OF assms(1,2)] add_indexed_def names_match_def cell_lower_def)

theorem duplicate_patient_is_warned_witness:
  "add_patient
     (Some \<lparr>export_df = Inr
              [\<lparr>col_record_id = CStr ''AB12'', col_ucsf_id = CNaN, col_ucsf_guid = CNaN,
                col_nda_guid = CNaN, col_mrn = CStr ''00001234'',
                col_first_name = CStr ''Jane'', col_last_name = CStr ''Doe''\<rparr>],
            import_records = (\<lambda>batch. None), export_by_id = (\<lambda>ids. None)\<rparr>)
     ''00001234'' ''JANE'' ''doe'' None None None
     \<lparr>random = \<lparr>src = \<lambda>i. i, pos = 0\<rparr>, warnings = [], imported = []\<rparr>
   = Some (Returned None,
           \<lparr>random = \<lparr>src = \<lambda>i. i, pos = 0\<rparr>,
            warnings = [''MRN 00001234 already exists in database.''], imported = []\<rparr>)"
proof -
  have first: "lower ''JANE'' = lower ''Jane''" by code_simp
  have last: "lower ''doe'' = lower ''Doe''" by code_simp
  show ?thesis
    by (simp add: duplicate_patient_is_warned [OF _ index_jane_doe _ first last])
qed

text \<open>
  C3. For every export whose indexed table maps the caller's \<open>mrn\<close> to a pair of names
  that differs from the call's names when both sides are lower-cased, \<open>add_patient\<close>
  should fail with the \<open>ValueError\<close> of the conflict, nothing being imported. The code
  does so when the stored names are strings (lemma \<open>conflict_raises_value_error\<close>), and
  nothing is imported for an indexed \<open>mrn\<close> in any case (lemma
  \<open>indexed_mrn_is_never_imported\<close>). It does not when a stored name is missing: here the
  export holds the \<open>mrn\<close> with last name \<open>"Doe"\<close> and no first name (NaN), the call gives
  \<open>"Jane"\<close> and \<open>"Doe"\<close>, and line 127 raises \<open>AttributeError\<close> from \<open>.lower()\<close> on the
  float, where the \<open>mrn\<close>, \<open>ucsf_id\<close> and GUID cells are all tested for NaN before
  they are used.
\<close>

theorem missing_stored_name_raises_attribute_error:
  "add_patient
     (Some \<lparr>export_df = Inr
              [\<lparr>col_record_id = CStr ''AB12'', col_ucsf_id = CNaN, col_ucsf_guid = CNaN,
                col_nda_guid = CNaN, col_mrn = CStr ''00001234'',
                col_first_name = CNaN, col_last_name = CStr ''Doe''\<rparr>],
            import_records = (\<lambda>batch. None), export_by_id = (\<lambda>ids. None)\<rparr>)
     ''00001234'' ''Jane'' ''Doe'' None None None
     \<lparr>random = \<lparr>src = \<lambda>i. i, pos = 0\<rparr>, warnings = [], imported = []\<rparr>
   = Some (Raised AttributeError,
           \<lparr>random = \<lparr>src = \<lambda>i. i, pos = 0\<rparr>, warnings = [], imported = []\<rparr>)"
proof -
  let ?rows = "[\<lparr>col_record_id = CStr ''AB12'', col_ucsf_id = CNaN, col_ucsf_guid = CNaN,
                col_nda_guid = CNaN, col_mrn = CStr ''00001234'',
                col_first_name = CNaN, col_last_name = CStr ''Doe''\<rparr>]"
  have "index_records ?rows
        = Inr \<lparr>patient_info = [''00001234'' \<mapsto> (CNaN, CStr ''Doe'')],
               ucsf_ids = {}, ucsf_guids = {}, nda_guids = {}\<rparr>"
    using py_int_00001234
    by (simp add: index_records_def index_row_def empty_index_def collect_nan index_mrn_str
        py_int_def fmt_d_8_1234)
  then show ?thesis
    by (simp add: add_patient_def add_indexed_def names_match_missing_first is_str_def)
qed

text \<open>
  C4. When a call of \<open>add_patient\<close> returns a pair (so both allocation loops ended), the
  pair is the one written in the submitted batch; if no short ID was supplied, the short
  ID is not in the set of short IDs collected from the export, and if no GUID was
  supplied, the GUID is not in the set of GUIDs collected from the export.
\<close>

theorem allocated_identifiers_are_new:
  assumes "export_df db = Inr records"
    and "index_records records = Inr ix"
    and "add_patient (Some db) mrn first_name last_name ucsf_id ucsf_guid nda_guid w
         = Some (Returned (Some (sid, guid)), w')"
  shows "imported w' = imported w
           @ [[record_phi sid mrn first_name last_name, record_info sid guid nda_guid]]
         \<and> (ucsf_id = None \<longrightarrow> sid \<notin> ucsf_ids ix)
         \<and> (ucsf_guid = None \<longrightarrow> guid \<notin> ucsf_guids ix)"
proof -
  from assms(3) obtain db' records' ix' g1 g2 where
    db: "Some db = Some db'" and records: "export_df db' = Inr records'" and
    ix: "index_records records' = Inr ix'" and
    a: "alloc_ucsf_id ucsf_id (ucsf_ids ix') (random w) = Some (sid, g1)" and
    b: "alloc_ucsf_guid ucsf_guid (ucsf_guids ix') g1 = Some (guid, g2)" and
    c: "write_records db' mrn first_name last_name nda_guid sid guid (w\<lparr>random := g2\<rparr>)
        = (Returned (Some (sid, guid)), w')"
    by (rule add_patient_returned_pair)
  from db records ix assms(1,2) have same: "ix' = ix" by simp
  have "imported w' = imported w
           @ [[record_phi sid mrn first_name last_name, record_info sid guid nda_guid]]"
    using write_records_imported [of db' mrn first_name last_name nda_guid sid guid "w\<lparr>random := g2\<rparr>"]
    by (simp add: c)
  moreover have "sid \<notin> ucsf_ids ix" if "ucsf_id = None"
    using a that alloc_ucsf_id_fresh [of "ucsf_ids ix" "random w" "(sid, g1)"] by (simp add: same)
  moreover have "guid \<notin> ucsf_guids ix" if "ucsf_guid = None"
    using b that alloc_ucsf_guid_fresh [of "ucsf_guids ix" g1 "(guid, g2)"] by (simp add: same)
  ultimately show ?thesis by blast
qed

theorem allocated_identifiers_are_new_witness:
  "add_patient
     (Some \<lparr>export_df = Inr
        [\<lparr>col_record_id = CStr ''AB12'', col_ucsf_id = CStr ''AB12'',
          col_ucsf_guid = CStr ''0000000000004000800000000000000c'', col_nda_guid = CNaN,
          col_mrn = CNaN, col_first_name = CNaN, col_last_name = CNaN\<rparr>,
         \<lparr>col_record_id = CStr ''CD34'', col_ucsf_id = CStr ''CD34'',
          col_ucsf_guid = CNaN, col_nda_guid = CNaN,
          col_mrn = CNaN, col_first_name = CNaN, col_last_name = CNaN\<rparr>],
        import_records = (\<lambda>batch. None), export_by_id = (\<lambda>ids. None)\<rparr>)
     ''00000001'' ''A'' ''B'' None None None
     \<lparr>random = \<lparr>src = \<lambda>i. if i < 12 then [0, 1, 27, 28, 2, 3, 29, 30, 4, 5, 31, 32] ! i else i,
                 pos = 0\<rparr>,
      warnings = [], imported = []\<rparr>
   = Some (Returned (Some (''EF56'', ''0000000000004000800000000000000d'')),
           \<lparr>random = \<lparr>src = \<lambda>i. if i < 12 then [0, 1, 27, 28, 2, 3, 29, 30, 4, 5, 31, 32] ! i else i,
                       pos = 14\<rparr>,
            warnings = [],
            imported =
              [[record_phi ''EF56'' ''00000001'' ''A'' ''B'',
                record_info ''EF56'' ''0000000000004000800000000000000d'' None]]\<rparr>)
   \<and> ''EF56'' \<notin> ucsf_ids \<lparr>patient_info = Map.empty, ucsf_ids = {''CD34'', ''AB12''},
          ucsf_guids = {''0000000000004000800000000000000c''}, nda_guids = {}\<rparr>
   \<and> ''0000000000004000800000000000000d''
       \<notin> ucsf_guids \<lparr>patient_info = Map.empty, ucsf_ids = {''CD34'', ''AB12''},
          ucsf_guids = {''0000000000004000800000000000000c''}, nda_guids = {}\<rparr>"
  using allocated_identifiers_are_new [OF _ index_two_taken run_with_collisions] run_with_collisions
  by simp

text \<open>
  C5, as stated: during indexing every string \<open>mrn\<close> cell is the key of the patient map
  unchanged. This fails: the string cell \<open>"1234"\<close> is recorded under \<open>"00001234"\<close>, and
  the map has no entry under \<open>"1234"\<close>.
\<close>

theorem string_mrn_is_key_counterexample:
  "index_mrn
     \<lparr>col_record_id = CStr ''AB12'', col_ucsf_id = CNaN, col_ucsf_guid = CNaN, col_nda_guid = CNaN,
      col_mrn = CStr ''1234'', col_first_name = CStr ''Jane'', col_last_name = CStr ''Doe''\<rparr>
     Map.empty
   = Inr [''00001234'' \<mapsto> (CStr ''Jane'', CStr ''Doe'')]
   \<and> [''00001234'' \<mapsto> (CStr ''Jane'', CStr ''Doe'')] ''1234'' = None"
  using py_int_1234 by (simp add: index_mrn_def is_str_def fmt_d_8_1234)

text \<open>
  C5, amended: during indexing an \<open>mrn\<close> cell that is a string goes through \<open>int()\<close>
  and the 8-character zero-padded format exactly as a numeric cell does. A string that
  \<open>int()\<close> accepts is recorded under the formatted value of its integer; a string that
  \<open>int()\<close> refuses stops the indexing, and \<open>add_patient\<close> fails with that error when
  the rows before it were indexed; so the key equals the string when the string consists of
  exactly 8 decimal digits (not for every string). An integer cell that converts to a float
  (as \<open>math.isnan\<close> requires) and a finite float cell are recorded under the formatted
  value of the integer and of the truncated float.
\<close>

theorem mrn_cell_is_normalised:
  "(col_mrn r = CStr s \<and> str_to_int s = Inr i
      \<longrightarrow> index_mrn r pinfo = Inr (pinfo(fmt_d 8 i \<mapsto> (col_first_name r, col_last_name r))))
   \<and> (col_mrn r = CStr s \<and> str_to_int s = Inl e \<longrightarrow> index_mrn r pinfo = Inl e)
   \<and> (col_mrn r = CStr s \<and> str_to_int s = Inl e
       \<and> export_df db = Inr (before @ r # after) \<and> index_rows empty_index before = Inr ix
      \<longrightarrow> add_patient (Some db) mrn first_name last_name ucsf_id ucsf_guid nda_guid w
          = Some (Raised e, w))
   \<and> (col_mrn r = CStr s \<and> length s = 8 \<and> (\<forall>c \<in> set s. is_digit c)
      \<longrightarrow> index_mrn r pinfo = Inr (pinfo(s \<mapsto> (col_first_name r, col_last_name r))))
   \<and> (col_mrn r = CInt n \<and> fits_float n
      \<longrightarrow> index_mrn r pinfo = Inr (pinfo(fmt_d 8 n \<mapsto> (col_first_name r, col_last_name r))))
   \<and> (col_mrn r = CFloat q
      \<longrightarrow> index_mrn r pinfo = Inr (pinfo(fmt_d 8 (trunc q) \<mapsto> (col_first_name r, col_last_name r))))"
proof -
  have parsed: "index_mrn r pinfo = Inr (pinfo(fmt_d 8 i \<mapsto> (col_first_name r, col_last_name r)))"
    if "col_mrn r = CStr s" and "str_to_int s = Inr i" for i
    using that by (simp add: index_mrn_def is_str_def py_int_def)
  have refused: "index_mrn r p = Inl e" if "col_mrn r = CStr s" and "str_to_int s = Inl e" for p
    using that by (simp add: index_mrn_def is_str_def py_int_def)
  have failed: "add_patient (Some db) mrn first_name last_name ucsf_id ucsf_guid nda_guid w
          = Some (Raised e, w)"
    if "col_mrn r = CStr s" and "str_to_int s = Inl e"
      and "export_df db = Inr (before @ r # after)" and "index_rows empty_index before = Inr ix"
    using add_patient_index_error [OF that(3,4) refused [OF that(1,2)]] .
  have canonical: "index_mrn r pinfo = Inr (pinfo(s \<mapsto> (col_first_name r, col_last_name r)))"
    if "col_mrn r = CStr s" and "length s = 8" and "\<forall>c \<in> set s. is_digit c"
    using parsed [OF that(1) eight_digits_roundtrip(1) [OF that(2,3)]]
      eight_digits_roundtrip(2) [OF that(2,3)] by simp
  have whole: "index_mrn r pinfo = Inr (pinfo(fmt_d 8 n \<mapsto> (col_first_name r, col_last_name r)))"
    if "col_mrn r = CInt n" and "fits_float n"
    using that by (simp add: index_mrn_def is_str_def isnan_def py_int_def)
  have fraction: "index_mrn r pinfo
      = Inr (pinfo(fmt_d 8 (trunc q) \<mapsto> (col_first_name r, col_last_name r)))"
    if "col_mrn r = CFloat q"
    using that by (simp add: index_mrn_def is_str_def isnan_def py_int_def)
  from parsed refused [of pinfo] failed canonical whole fraction show ?thesis by blast
qed

theorem mrn_cell_is_normalised_witness:
  "index_mrn
     \<lparr>col_record_id = CStr ''AB12'', col_ucsf_id = CNaN, col_ucsf_guid = CNaN, col_nda_guid = CNaN,
      col_mrn = CStr ''1234'', col_first_name = CStr ''Jane'', col_last_name = CStr ''Doe''\<rparr>
     Map.empty
   = Inr [''00001234'' \<mapsto> (CStr ''Jane'', CStr ''Doe'')]
   \<and> index_mrn
     \<lparr>col_record_id = CStr ''AB12'', col_ucsf_id = CNaN, col_ucsf_guid = CNaN, col_nda_guid = CNaN,
      col_mrn = CStr ''12a4'', col_first_name = CStr ''Jane'', col_last_name = CStr ''Doe''\<rparr>
     Map.empty
   = Inl InvalidLiteral
   \<and> add_patient
     (Some \<lparr>export_df = Inr
        [\<lparr>col_record_id = CStr ''AB12'', col_ucsf_id = CNaN, col_ucsf_guid = CNaN,
          col_nda_guid = CNaN, col_mrn = CStr ''12a4'',
          col_first_name = CStr ''Jane'', col_last_name = CStr ''Doe''\<rparr>],
        import_records = (\<lambda>batch. None), export_by_id = (\<lambda>ids. None)\<rparr>)
     ''00000001'' ''A'' ''B'' None None None
     \<lparr>random = \<lparr>src = \<lambda>i. i, pos = 0\<rparr>, warnings = [], imported = []\<rparr>
   = Some (Raised InvalidLiteral,
           \<lparr>random = \<lparr>src = \<lambda>i. i, pos = 0\<rparr>, warnings = [], imported = []\<rparr>)
   \<and> index_mrn
     \<lparr>col_record_id = CStr ''AB12'', col_ucsf_id = CNaN, col_ucsf_guid = CNaN, col_nda_guid = CNaN,
      col_mrn = CStr ''00001234'', col_first_name = CStr ''Jane'', col_last_name = CStr ''Doe''\<rparr>
     Map.empty
   = Inr [''00001234'' \<mapsto> (CStr ''Jane'', CStr ''Doe'')]
   \<and> index_mrn
     \<lparr>col_record_id = CStr ''AB12'', col_ucsf_id = CNaN, col_ucsf_guid = CNaN, col_nda_guid = CNaN,
      col_mrn = CInt 1234, col_first_name = CStr ''Jane'', col_last_name = CStr ''Doe''\<rparr>
     Map.empty
   = Inr [''00001234'' \<mapsto> (CStr ''Jane'', CStr ''Doe'')]
   \<and> index_mrn
     \<lparr>col_record_id = CStr ''AB12'', col_ucsf_id = CNaN, col_ucsf_guid = CNaN, col_nda_guid = CNaN,
      col_mrn = CFloat (2469 / 2), col_first_name = CStr ''Jane'', col_last_name = CStr ''Doe''\<rparr>
     Map.empty
   = Inr [''00001234'' \<mapsto> (CStr ''Jane'', CStr ''Doe'')]"
proof -
  have digits: "\<forall>c \<in> set ''00001234''. is_digit c" by (simp add: is_digit_def)
  have a: "str_to_int ''1234'' = Inr 1234" using py_int_1234 by (simp add: py_int_def)
  have b: "str_to_int ''12a4'' = Inl InvalidLiteral" using py_int_12a4 by (simp add: py_int_def)
  have c: "trunc (2469 / 2) = 1234" by (simp add: trunc_def floor_eq_iff)
  have d: "fits_float 1234" by (simp add: fits_float_def)
  have e: "index_rows empty_index [] = Inr empty_index" by simp
  show ?thesis
    using
      mrn_cell_is_normalised [where s = "''1234''" and i = 1234 and pinfo = Map.empty and r =
        "\<lparr>col_record_id = CStr ''AB12'', col_ucsf_id = CNaN, col_ucsf_guid = CNaN, col_nda_guid = CNaN,
          col_mrn = CStr ''1234'', col_first_name = CStr ''Jane'', col_last_name = CStr ''Doe''\<rparr>"]
      mrn_cell_is_normalised [where s = "''12a4''" and e = InvalidLiteral and pinfo = Map.empty and r =
        "\<lparr>col_record_id = CStr ''AB12'', col_ucsf_id = CNaN, col_ucsf_guid = CNaN, col_nda_guid = CNaN,
          col_mrn = CStr ''12a4'', col_first_name = CStr ''Jane'', col_last_name = CStr ''Doe''\<rparr>"
        and before = "[]" and after = "[]" and ix = empty_index and db =
        "\<lparr>export_df = Inr
           [\<lparr>col_record_id = CStr ''AB12'', col_ucsf_id = CNaN, col_ucsf_guid = CNaN,
             col_nda_guid = CNaN, col_mrn = CStr ''12a4'',
             col_first_name = CStr ''Jane'', col_last_name = CStr ''Doe''\<rparr>],
           import_records = (\<lambda>batch. None), export_by_id = (\<lambda>ids. None)\<rparr>"
        and mrn = "''00000001''" and first_name = "''A''" and last_name = "''B''"
        and ucsf_id = None and ucsf_guid = None and nda_guid = None and w =
        "\<lparr>random = \<lparr>src = \<lambda>i. i, pos = 0\<rparr>, warnings = [], imported = []\<rparr>"]
      mrn_cell_is_normalised [where s = "''00001234''" and pinfo = Map.empty and r =
        "\<lparr>col_record_id = CStr ''AB12'', col_ucsf_id = CNaN, col_ucsf_guid = CNaN, col_nda_guid = CNaN,
          col_mrn = CStr ''00001234'', col_first_name = CStr ''Jane'', col_last_name = CStr ''Doe''\<rparr>"]
      mrn_cell_is_normalised [where n = 1234 and pinfo = Map.empty and r =
        "\<lparr>col_record_id = CStr ''AB12'', col_ucsf_id = CNaN, col_ucsf_guid = CNaN, col_nda_guid = CNaN,
          col_mrn = CInt 1234, col_first_name = CStr ''Jane'', col_last_name = CStr ''Doe''\<rparr>"]
      mrn_cell_is_normalised [where q = "2469 / 2" and pinfo = Map.empty and r =
        "\<lparr>col_record_id = CStr ''AB12'', col_ucsf_id = CNaN, col_ucsf_guid = CNaN, col_nda_guid = CNaN,
          col_mrn = CFloat (2469 / 2), col_first_name = CStr ''Jane'', col_last_name = CStr ''Doe''\<rparr>"]
      a b c d e digits
    by (simp add: fmt_d_8_1234)
qed

text \<open>
  C6. The short ID of \<open>create_ucsf_id\<close> and every short ID that \<open>add_patient\<close> allocates
  (none being supplied) has length 4 and only characters among \<open>A\<close> to \<open>Z\<close> and \<open>0\<close> to
  \<open>9\<close>; the GUID of \<open>create_ucsf_id\<close> and every GUID that \<open>add_patient\<close> allocates has
  length 32 and only characters among \<open>0\<close> to \<open>9\<close> and \<open>a\<close> to \<open>f\<close>.
\<close>

theorem generated_identifiers_are_well_formed:
  "length (fst (fst (create_ucsf_id g))) = 4
   \<and> set (fst (fst (create_ucsf_id g))) \<subseteq> set ''ABCDEFGHIJKLMNOPQRSTUVWXYZ0123456789''
   \<and> length (snd (fst (create_ucsf_id g))) = 32
   \<and> set (snd (fst (create_ucsf_id g))) \<subseteq> set ''0123456789abcdef''
   \<and> (add_patient database mrn first_name last_name ucsf_id ucsf_guid nda_guid w
        = Some (Returned (Some (sid, guid)), w')
       \<longrightarrow> (ucsf_id = None
              \<longrightarrow> length sid = 4 \<and> set sid \<subseteq> set ''ABCDEFGHIJKLMNOPQRSTUVWXYZ0123456789'')
         \<and> (ucsf_guid = None
              \<longrightarrow> length guid = 32 \<and> set guid \<subseteq> set ''0123456789abcdef''))"
proof -
  have alphabet: "set valid_id_chars = set ''ABCDEFGHIJKLMNOPQRSTUVWXYZ0123456789''"
    by (simp add: valid_id_chars_def)
  have short: "length (fst (draw_id h)) = 4
      \<and> set (fst (draw_id h)) \<subseteq> set ''ABCDEFGHIJKLMNOPQRSTUVWXYZ0123456789''" for h
    using draw_id_length [of h] draw_id_chars [of h] unfolding alphabet by blast
  have long: "length (fst (draw_guid h)) = 32 \<and> set (fst (draw_guid h)) \<subseteq> set ''0123456789abcdef''" for h
    using draw_guid_length [of h] draw_guid_chars [of h] by blast
  have created: "fst (create_ucsf_id g) = (fst (draw_id g), fst (draw_guid (snd (draw_id g))))"
    by (simp add: create_ucsf_id_def split: prod.splits)
  have part1: "length (fst (fst (create_ucsf_id g))) = 4
   \<and> set (fst (fst (create_ucsf_id g))) \<subseteq> set ''ABCDEFGHIJKLMNOPQRSTUVWXYZ0123456789''
   \<and> length (snd (fst (create_ucsf_id g))) = 32
   \<and> set (snd (fst (create_ucsf_id g))) \<subseteq> set ''0123456789abcdef''"
    unfolding created fst_conv snd_conv using short [of g] long [of "snd (draw_id g)"] by blast
  have part2: "(ucsf_id = None
              \<longrightarrow> length sid = 4 \<and> set sid \<subseteq> set ''ABCDEFGHIJKLMNOPQRSTUVWXYZ0123456789'')
         \<and> (ucsf_guid = None
              \<longrightarrow> length guid = 32 \<and> set guid \<subseteq> set ''0123456789abcdef'')"
    if run: "add_patient database mrn first_name last_name ucsf_id ucsf_guid nda_guid w
        = Some (Returned (Some (sid, guid)), w')"
  proof -
    from run obtain db records ix g1 g2 where
      "database = Some db" and "export_df db = Inr records" and
      "index_records records = Inr ix" and "patient_info ix mrn = None" and
      a: "alloc_ucsf_id ucsf_id (ucsf_ids ix) (random w) = Some (sid, g1)" and
      b: "alloc_ucsf_guid ucsf_guid (ucsf_guids ix) g1 = Some (guid, g2)" and
      "write_records db mrn first_name last_name nda_guid sid guid (w\<lparr>random := g2\<rparr>)
       = (Returned (Some (sid, guid)), w')"
      by (rule add_patient_returned_pair)
    have "\<exists>h. sid = fst (draw_id h)" if "ucsf_id = None"
      using a that alloc_ucsf_id_drawn [of "ucsf_ids ix" "random w" "(sid, g1)"] by simp
    moreover have "\<exists>h. guid = fst (draw_guid h)" if "ucsf_guid = None"
      using b that alloc_ucsf_guid_drawn [of "ucsf_guids ix" g1 "(guid, g2)"] by simp
    ultimately show ?thesis using short long by metis
  qed
  from part1 part2 show ?thesis by blast
qed

theorem generated_identifiers_are_well_formed_witness:
  "length (fst (fst (create_ucsf_id \<lparr>src = \<lambda>i. i, pos = 0\<rparr>))) = 4
   \<and> set (fst (fst (create_ucsf_id \<lparr>src = \<lambda>i. i, pos = 0\<rparr>)))
       \<subseteq> set ''ABCDEFGHIJKLMNOPQRSTUVWXYZ0123456789''
   \<and> length (snd (fst (create_ucsf_id \<lparr>src = \<lambda>i. i, pos = 0\<rparr>))) = 32
   \<and> set (snd (fst (create_ucsf_id \<lparr>src = \<lambda>i. i, pos = 0\<rparr>))) \<subseteq> set ''0123456789abcdef''
   \<and> add_patient
       (Some \<lparr>export_df = Inr [], import_records = (\<lambda>batch. None), export_by_id = (\<lambda>ids. None)\<rparr>)
       ''00000001'' ''A'' ''B'' None None None
       \<lparr>random = \<lparr>src = \<lambda>i. i, pos = 0\<rparr>, warnings = [], imported = []\<rparr>
     = Some (Returned (Some (''ABCD'', ''00000000000040008000000000000004'')),
             \<lparr>random = \<lparr>src = \<lambda>i. i, pos = 5\<rparr>, warnings = [],
              imported =
                [[record_phi ''ABCD'' ''00000001'' ''A'' ''B'',
                  record_info ''ABCD'' ''00000000000040008000000000000004'' None]]\<rparr>)
   \<and> length ''ABCD'' = 4
   \<and> set ''ABCD'' \<subseteq> set ''ABCDEFGHIJKLMNOPQRSTUVWXYZ0123456789''
   \<and> length ''00000000000040008000000000000004'' = 32
   \<and> set ''00000000000040008000000000000004'' \<subseteq> set ''0123456789abcdef''"
  using generated_identifiers_are_well_formed
    [of "\<lparr>src = \<lambda>i. i, pos = 0\<rparr>"
        "Some \<lparr>export_df = Inr [], import_records = (\<lambda>batch. None), export_by_id = (\<lambda>ids. None)\<rparr>"
        "''00000001''" "''A''" "''B''" None None None
        "\<lparr>random = \<lparr>src = \<lambda>i. i, pos = 0\<rparr>, warnings = [], imported = []\<rparr>"
        "''ABCD''" "''00000000000040008000000000000004''"
        "\<lparr>random = \<lparr>src = \<lambda>i. i, pos = 5\<rparr>, warnings = [],
              imported =
                [[record_phi ''ABCD'' ''00000001'' ''A'' ''B'',
                  record_info ''ABCD'' ''00000000000040008000000000000004'' None]]\<rparr>"]
    run_on_empty_export
  by simp

text \<open>
  C7. If the re-fetch that follows the import raises an exception, \<open>add_patient\<close>
  catches it, emits one warning with its text, and still returns the pair of the short
  ID and the GUID; the batch stays submitted once (no retry, no rollback).
\<close>

theorem failed_verification_is_warned:
  assumes "export_df db = Inr records"
    and "index_records records = Inr ix"
    and "patient_info ix mrn = None"
    and "alloc_ucsf_id ucsf_id (ucsf_ids ix) (random w) = Some (sid, g1)"
    and "alloc_ucsf_guid ucsf_guid (ucsf_guids ix) g1 = Some (guid, g2)"
    and "import_records db [record_phi sid mrn first_name last_name, record_info sid guid nda_guid] = None"
    and "export_by_id db [sid] = Some msg"
  shows "add_patient (Some db) mrn first_name last_name ucsf_id ucsf_guid nda_guid w
         = Some (Returned (Some (sid, guid)),
                 w\<lparr>random := g2,
                   imported := imported w
                     @ [[record_phi sid mrn first_name last_name, record_info sid guid nda_guid]],
                   warnings := warnings w
                     @ [''Failed to add patient '' @ mrn @ '' to database: '' @ msg]\<rparr>)"
  by (simp add: add_patient_indexed [OF assms(1,2)] add_indexed_insert [OF assms(3,4,5)]
      write_records_unverified [OF assms(6,7)])

theorem failed_verification_is_warned_witness:
  "add_patient
     (Some \<lparr>export_df = Inr [], import_records = (\<lambda>batch. None),
            export_by_id = (\<lambda>ids. Some ''timed out'')\<rparr>)
     ''00000001'' ''A'' ''B'' None None None
     \<lparr>random = \<lparr>src = \<lambda>i. i, pos = 0\<rparr>, warnings = [], imported = []\<rparr>
   = Some (Returned (Some (''ABCD'', ''00000000000040008000000000000004'')),
           \<lparr>random = \<lparr>src = \<lambda>i. i, pos = 5\<rparr>,
            warnings = [''Failed to add patient 00000001 to database: timed out''],
            imported =
              [[[(''record_id'', Some ''ABCD''), (''redcap_event_name'', Some ''general_phi_arm_1''),
                 (''mrn'', Some ''00000001''), (''first_name'', Some ''A''), (''last_name'', Some ''B'')],
                [(''record_id'', Some ''ABCD''), (''redcap_event_name'', Some ''demographics_arm_1''),
                 (''ucsf_id'', Some ''ABCD''),
                 (''ucsf_guid'', Some ''00000000000040008000000000000004''),
                 (''nda_guid'', None)]]]\<rparr>)"
proof -
  have ix: "index_records [] = Inr empty_index" by (simp add: index_records_def)
  have a: "alloc_ucsf_id None {} \<lparr>src = \<lambda>i. i, pos = 0\<rparr> = Some (''ABCD'', \<lparr>src = \<lambda>i. i, pos = 4\<rparr>)"
    using alloc_ucsf_id_first [of "\<lparr>src = \<lambda>i. i, pos = 0\<rparr>" "{}"] by (simp add: draw_id_example)
  have b: "alloc_ucsf_guid None {} \<lparr>src = \<lambda>i. i, pos = 4\<rparr>
           = Some (''00000000000040008000000000000004'', \<lparr>src = \<lambda>i. i, pos = 5\<rparr>)"
    using alloc_ucsf_guid_first [of "\<lparr>src = \<lambda>i. i, pos = 4\<rparr>" "{}"] by (simp add: draw_guid_example)
  show ?thesis
    using failed_verification_is_warned
      [of "\<lparr>export_df = Inr [], import_records = (\<lambda>batch. None),
            export_by_id = (\<lambda>ids. Some ''timed out'')\<rparr>"
          "[]" empty_index "''00000001''" None
          "\<lparr>random = \<lparr>src = \<lambda>i. i, pos = 0\<rparr>, warnings = [], imported = []\<rparr>"
          "''ABCD''" "\<lparr>src = \<lambda>i. i, pos = 4\<rparr>" None "''00000000000040008000000000000004''"
          "\<lparr>src = \<lambda>i. i, pos = 5\<rparr>" "''A''" "''B''" None "''timed out''"]
    by (simp add: ix a b empty_index_def record_phi_def record_info_def)
qed

text \<open>
  C8. The duplicate check looks the caller's \<open>mrn\<close> up as it is among the normalised
  keys. For every call whose \<open>mrn\<close> is not the 8-character zero-padded form of the MRN
  of any exported row, no duplicate and no conflict is found: once the identifiers are
  allocated and the import returns, the pair is returned and a new batch for this
  \<open>mrn\<close> is submitted.
\<close>

theorem unnormalised_mrn_is_inserted_again:
  assumes "export_df db = Inr records"
    and "index_records records = Inr ix"
    and "\<forall>r \<in> set records. \<forall>i. py_int (col_mrn r) = Inr i \<longrightarrow> mrn \<noteq> fmt_d 8 i"
    and "alloc_ucsf_id ucsf_id (ucsf_ids ix) (random w) = Some (sid, g1)"
    and "alloc_ucsf_guid ucsf_guid (ucsf_guids ix) g1 = Some (guid, g2)"
    and "import_records db [record_phi sid mrn first_name last_name, record_info sid guid nda_guid] = None"
  shows "\<exists>w'. add_patient (Some db) mrn first_name last_name ucsf_id ucsf_guid nda_guid w
               = Some (Returned (Some (sid, guid)), w')
             \<and> imported w' = imported w
                 @ [[record_phi sid mrn first_name last_name, record_info sid guid nda_guid]]
             \<and> warnings w' = warnings w
                 @ (case export_by_id db [sid] of
                      None \<Rightarrow> []
                    | Some msg \<Rightarrow> [''Failed to add patient '' @ mrn @ '' to database: '' @ msg])"
proof -
  have unseen: "patient_info ix mrn = None"
  proof (cases "patient_info ix mrn")
    case None
    then show ?thesis .
  next
    case (Some v)
    from index_records_keys [OF assms(2) Some] assms(3) show ?thesis by blast
  qed
  let ?res = "write_records db mrn first_name last_name nda_guid sid guid (w\<lparr>random := g2\<rparr>)"
  have "add_patient (Some db) mrn first_name last_name ucsf_id ucsf_guid nda_guid w = Some ?res"
    by (simp add: add_patient_indexed [OF assms(1,2)] add_indexed_insert [OF unseen assms(4,5)])
  moreover have "fst ?res = Returned (Some (sid, guid))"
    using assms(6) by (rule write_records_returned)
  moreover have "imported (snd ?res) = imported w
      @ [[record_phi sid mrn first_name last_name, record_info sid guid nda_guid]]"
    by (simp add: write_records_imported)
  moreover have "warnings (snd ?res) = warnings w
                 @ (case export_by_id db [sid] of
                      None \<Rightarrow> []
                    | Some msg \<Rightarrow> [''Failed to add patient '' @ mrn @ '' to database: '' @ msg])"
    using assms(6) by (simp add: write_records_def Let_def split: option.splits)
  ultimately show ?thesis
    by (intro exI [of _ "snd ?res"]) (simp add: prod_eq_iff)
qed

theorem unnormalised_mrn_is_inserted_again_witness:
  "\<exists>w'. add_patient
           (Some \<lparr>export_df = Inr
                    [\<lparr>col_record_id = CStr ''AB12'', col_ucsf_id = CNaN, col_ucsf_guid = CNaN,
                      col_nda_guid = CNaN, col_mrn = CStr ''00001234'',
                      col_first_name = CStr ''Jane'', col_last_name = CStr ''Doe''\<rparr>],
                  import_records = (\<lambda>batch. None), export_by_id = (\<lambda>ids. None)\<rparr>)
           ''1234'' ''Jane'' ''Doe'' None None None
           \<lparr>random = \<lparr>src = \<lambda>i. i, pos = 0\<rparr>, warnings = [], imported = []\<rparr>
         = Some (Returned (Some (''ABCD'', ''00000000000040008000000000000004'')), w')
       \<and> imported w'
         = [[[(''record_id'', Some ''ABCD''), (''redcap_event_name'', Some ''general_phi_arm_1''),
              (''mrn'', Some ''1234''), (''first_name'', Some ''Jane''), (''last_name'', Some ''Doe'')],
             [(''record_id'', Some ''ABCD''), (''redcap_event_name'', Some ''demographics_arm_1''),
              (''ucsf_id'', Some ''ABCD''),
              (''ucsf_guid'', Some ''00000000000040008000000000000004''), (''nda_guid'', None)]]]
       \<and> warnings w' = []"
proof -
  let ?rows = "[\<lparr>col_record_id = CStr ''AB12'', col_ucsf_id = CNaN, col_ucsf_guid = CNaN,
                      col_nda_guid = CNaN, col_mrn = CStr ''00001234'',
                      col_first_name = CStr ''Jane'', col_last_name = CStr ''Doe''\<rparr>]"
  let ?ix = "\<lparr>patient_info = [''00001234'' \<mapsto> (CStr ''Jane'', CStr ''Doe'')],
          ucsf_ids = {}, ucsf_guids = {}, nda_guids = {}\<rparr>"
  have other: "\<forall>r \<in> set ?rows. \<forall>i. py_int (col_mrn r) = Inr i \<longrightarrow> ''1234'' \<noteq> fmt_d 8 i"
    by (simp add: py_int_00001234 fmt_d_8_1234)
  have a: "alloc_ucsf_id None (ucsf_ids ?ix) \<lparr>src = \<lambda>i. i, pos = 0\<rparr>
           = Some (''ABCD'', \<lparr>src = \<lambda>i. i, pos = 4\<rparr>)"
    using alloc_ucsf_id_first [of "\<lparr>src = \<lambda>i. i, pos = 0\<rparr>" "{}"] by (simp add: draw_id_example)
  have b: "alloc_ucsf_guid None (ucsf_guids ?ix) \<lparr>src = \<lambda>i. i, pos = 4\<rparr>
           = Some (''00000000000040008000000000000004'', \<lparr>src = \<lambda>i. i, pos = 5\<rparr>)"
    using alloc_ucsf_guid_first [of "\<lparr>src = \<lambda>i. i, pos = 4\<rparr>" "{}"] by (simp add: draw_guid_example)
  show ?thesis
    using unnormalised_mrn_is_inserted_again
      [of "\<lparr>export_df = Inr ?rows, import_records = (\<lambda>batch. None), export_by_id = (\<lambda>ids. None)\<rparr>"
          ?rows ?ix "''1234''" None
          "\<lparr>random = \<lparr>src = \<lambda>i. i, pos = 0\<rparr>, warnings = [], imported = []\<rparr>"
          "''ABCD''" "\<lparr>src = \<lambda>i. i, pos = 4\<rparr>" None "''00000000000040008000000000000004''"
          "\<lparr>src = \<lambda>i. i, pos = 5\<rparr>" "''Jane''" "''Doe''" None, OF _ index_jane_doe other]
    using a b by (simp add: record_phi_def record_info_def)
qed

text \<open>
  C9. When the caller supplies \<open>ucsf_id\<close> and \<open>ucsf_guid\<close>, \<open>add_patient\<close> writes them
  as they are, whatever the sets of existing identifiers hold: neither allocation looks at
  its set when a value is supplied, and the set of existing \<open>nda_guid\<close> values has no
  influence on the call at all.
\<close>

theorem supplied_identifiers_are_not_checked:
  assumes "export_df db = Inr records"
    and "index_records records = Inr ix"
    and "patient_info ix mrn = None"
    and "import_records db [record_phi u mrn first_name last_name, record_info u g nda_guid] = None"
  shows "(\<exists>w'. add_patient (Some db) mrn first_name last_name (Some u) (Some g) nda_guid w
                = Some (Returned (Some (u, g)), w')
              \<and> imported w' = imported w
                  @ [[record_phi u mrn first_name last_name, record_info u g nda_guid]])
       \<and> alloc_ucsf_id (Some u) ids rnd = Some (u, rnd)
       \<and> alloc_ucsf_guid (Some g) ids rnd = Some (g, rnd)
       \<and> add_indexed db (ix\<lparr>nda_guids := others\<rparr>) mrn first_name last_name ucsf_id ucsf_guid nda_guid w
         = add_indexed db ix mrn first_name last_name ucsf_id ucsf_guid nda_guid w"
proof -
  have a: "alloc_ucsf_id (Some u) (ucsf_ids ix) (random w) = Some (u, random w)"
    by (simp add: alloc_ucsf_id_def)
  have b: "alloc_ucsf_guid (Some g) (ucsf_guids ix) (random w) = Some (g, random w)"
    by (simp add: alloc_ucsf_guid_def)
  let ?res = "write_records db mrn first_name last_name nda_guid u g w"
  have "add_patient (Some db) mrn first_name last_name (Some u) (Some g) nda_guid w = Some ?res"
    by (simp add: add_patient_indexed [OF assms(1,2)] add_indexed_insert [OF assms(3) a b])
  moreover have "fst ?res = Returned (Some (u, g))"
    using assms(4) by (rule write_records_returned)
  moreover have "imported (snd ?res) = imported w
      @ [[record_phi u mrn first_name last_name, record_info u g nda_guid]]"
    by (simp add: write_records_imported)
  ultimately have "\<exists>w'. add_patient (Some db) mrn first_name last_name (Some u) (Some g) nda_guid w
                = Some (Returned (Some (u, g)), w')
              \<and> imported w' = imported w
                  @ [[record_phi u mrn first_name last_name, record_info u g nda_guid]]"
    by (intro exI [of _ "snd ?res"]) (simp add: prod_eq_iff)
  then show ?thesis
    by (simp add: alloc_ucsf_id_def alloc_ucsf_guid_def add_indexed_ignores_nda_guids)
qed

theorem supplied_identifiers_are_not_checked_witness:
  "index_records
     [\<lparr>col_record_id = CStr ''AB12'', col_ucsf_id = CStr ''AB12'',
       col_ucsf_guid = CStr ''0949b0f6f002431384499050de38f34e'', col_nda_guid = CStr ''NDAR0001'',
       col_mrn = CNaN, col_first_name = CNaN, col_last_name = CNaN\<rparr>]
   = Inr \<lparr>patient_info = Map.empty, ucsf_ids = {''AB12''},
          ucsf_guids = {''0949b0f6f002431384499050de38f34e''}, nda_guids = {''NDAR0001''}\<rparr>
   \<and> (\<exists>w'. add_patient
           (Some \<lparr>export_df = Inr
                    [\<lparr>col_record_id = CStr ''AB12'', col_ucsf_id = CStr ''AB12'',
                      col_ucsf_guid = CStr ''0949b0f6f002431384499050de38f34e'',
                      col_nda_guid = CStr ''NDAR0001'',
                      col_mrn = CNaN, col_first_name = CNaN, col_last_name = CNaN\<rparr>],
                  import_records = (\<lambda>batch. None), export_by_id = (\<lambda>ids. None)\<rparr>)
           ''00000002'' ''A'' ''B''
           (Some ''AB12'') (Some ''0949b0f6f002431384499050de38f34e'') (Some ''NDAR0001'')
           \<lparr>random = \<lparr>src = \<lambda>i. i, pos = 0\<rparr>, warnings = [], imported = []\<rparr>
         = Some (Returned (Some (''AB12'', ''0949b0f6f002431384499050de38f34e'')), w')
       \<and> imported w'
         = [[[(''record_id'', Some ''AB12''), (''redcap_event_name'', Some ''general_phi_arm_1''),
              (''mrn'', Some ''00000002''), (''first_name'', Some ''A''), (''last_name'', Some ''B'')],
             [(''record_id'', Some ''AB12''), (''redcap_event_name'', Some ''demographics_arm_1''),
              (''ucsf_id'', Some ''AB12''),
              (''ucsf_guid'', Some ''0949b0f6f002431384499050de38f34e''),
              (''nda_guid'', Some ''NDAR0001'')]]])"
proof -
  let ?rows = "[\<lparr>col_record_id = CStr ''AB12'', col_ucsf_id = CStr ''AB12'',
       col_ucsf_guid = CStr ''0949b0f6f002431384499050de38f34e'', col_nda_guid = CStr ''NDAR0001'',
       col_mrn = CNaN, col_first_name = CNaN, col_last_name = CNaN\<rparr>]"
  let ?ix = "\<lparr>patient_info = Map.empty, ucsf_ids = {''AB12''},
          ucsf_guids = {''0949b0f6f002431384499050de38f34e''}, nda_guids = {''NDAR0001''}\<rparr>"
  have ix: "index_records ?rows = Inr ?ix"
    by (simp add: index_records_def index_row_def empty_index_def collect_str index_mrn_nan)
  show ?thesis
    using supplied_identifiers_are_not_checked
      [of "\<lparr>export_df = Inr ?rows, import_records = (\<lambda>batch. None), export_by_id = (\<lambda>ids. None)\<rparr>"
          ?rows ?ix "''00000002''" "''AB12''" "''A''" "''B''" "''0949b0f6f002431384499050de38f34e''"
          "Some ''NDAR0001''"
          "\<lparr>random = \<lparr>src = \<lambda>i. i, pos = 0\<rparr>, warnings = [], imported = []\<rparr>"]
    by (simp add: ix record_phi_def record_info_def)
qed

text \<open>
  C10. For every input \<open>(id_, id_type)\<close>, \<open>ucsf_id_lookup\<close> returns no value
  (\<open>None\<close>), whatever the state of the instance: the lookup is a stub.
\<close>

theorem ucsf_id_lookup_returns_none: "ucsf_id_lookup database ident id_type = None"
  by (simp add: ucsf_id_lookup_def)

end
